theory Spec2Isabelle
  imports Complex_Main "HOL-Library.Sublist" "HOL-Library.Multiset"
begin

text \<open>
  The retrieval core of the Rabbi Nachman voice assistant, embedded from its JavaScript
  sources: result fusion and budget selection (\<open>src/routes/query.js\<close>), the master
  index (\<open>MasterIndexService\<close> in \<open>src/services/database.js\<close>), the similarity
  search as the query route calls it (\<open>src/services/vector-search.js\<close>) and the
  semantic chunker (\<open>src/services/chunker.js\<close>).  The definitions come first, one
  section for each source file; the properties follow, each claim of the specification
  under its number.

  Asynchronous functions are modelled by their results: a promise that rejects is the
  value \<open>Inl\<close> of an error.  The store, the embedding provider and the language model
  are parameters.
\<close>

section \<open>JavaScript values shared by the services\<close>

text \<open>
  A JavaScript string is a sequence of UTF-16 code units; \<open>length\<close> counts code units.
  The regular expressions of the chunker name Hebrew punctuation (U+05C3, U+05C0), so a
  code unit is a natural number rather than an 8-bit \<open>char\<close>.  \<open>js\<close> embeds an ASCII
  literal.  JavaScript numbers that carry scores are modelled as exact rationals: the
  rounding of IEEE doubles is not part of the model.
\<close>

type_synonym js_string = "nat list"

definition js :: "string \<Rightarrow> js_string" where
  "js s = map of_char s"

text \<open>An exception that a promise rejects with: the \<open>message\<close> of the \<open>Error\<close>.\<close>

datatype error = Error js_string

fun message :: "error \<Rightarrow> js_string" where
  "message (Error m) = m"


section \<open>Result fusion: \<open>src/routes/query.js\<close>\<close>

text \<open>
  A search result as the three services return it: the row of \<open>text_chunks\<close> with a
  \<open>score\<close>; \<open>combineSearchResults\<close> adds \<open>source\<close>.  The fields that no function of
  \<open>query.js\<close> reads before the answer is generated (\<open>content\<close>, \<open>themes\<close>, ...) are
  copied unchanged by the spread \<open>...chunk\<close> and are left out.
\<close>

record scored_chunk =
  sc_id :: js_string
  sc_exact_reference :: js_string
  sc_token_count :: int
  sc_score :: rat
  sc_source :: "js_string option"

text \<open>
  A JavaScript \<open>Map\<close> iterates in insertion order and \<open>set\<close> on a key that is present
  replaces the value in place: an association list with distinct keys.
\<close>

fun map_set :: "('k \<times> 'v) list \<Rightarrow> 'k \<Rightarrow> 'v \<Rightarrow> ('k \<times> 'v) list" where
  "map_set [] k v = [(k, v)]"
| "map_set ((k', v') # m) k v =
     (if k' = k then (k, v) # m else (k', v') # map_set m k v)"

definition map_get :: "('k \<times> 'v) list \<Rightarrow> 'k \<Rightarrow> 'v option" where
  "map_get m k = map_of m k"

definition map_values :: "('k \<times> 'v) list \<Rightarrow> 'v list" where
  "map_values m = map snd m"

text \<open>The three \<open>forEach\<close> bodies of \<open>combineSearchResults\<close>.\<close>

definition add_vector ::
  "(js_string \<times> scored_chunk) list \<Rightarrow> scored_chunk \<Rightarrow> (js_string \<times> scored_chunk) list" where
  "add_vector combined c =
     map_set combined (sc_id c)
       (c\<lparr>sc_score := sc_score c * 1.0, sc_source := Some (js ''vector'')\<rparr>)"

definition add_master ::
  "(js_string \<times> scored_chunk) list \<Rightarrow> scored_chunk \<Rightarrow> (js_string \<times> scored_chunk) list" where
  "add_master combined c =
     (case map_get combined (sc_id c) of
        Some e \<Rightarrow> map_set combined (sc_id c) (e\<lparr>sc_score := sc_score e + 0.3\<rparr>)
      | None \<Rightarrow> map_set combined (sc_id c)
                 (c\<lparr>sc_score := 0.7, sc_source := Some (js ''master'')\<rparr>))"

definition add_theme ::
  "(js_string \<times> scored_chunk) list \<Rightarrow> scored_chunk \<Rightarrow> (js_string \<times> scored_chunk) list" where
  "add_theme combined c =
     (case map_get combined (sc_id c) of
        Some e \<Rightarrow> map_set combined (sc_id c) (e\<lparr>sc_score := sc_score e + 0.2\<rparr>)
      | None \<Rightarrow> map_set combined (sc_id c)
                 (c\<lparr>sc_score := 0.5, sc_source := Some (js ''theme'')\<rparr>))"

text \<open>
  The \<open>Map\<close> after the three passes.  The argument is the array that \<open>Promise.all\<close>
  resolves to: master-index results, vector results, theme results, in this order.
\<close>

definition combined_map ::
  "scored_chunk list \<times> scored_chunk list \<times> scored_chunk list
     \<Rightarrow> (js_string \<times> scored_chunk) list" where
  "combined_map searchResults =
     (case searchResults of (masterResults, vectorResults, themeResults) \<Rightarrow>
        foldl add_theme (foldl add_master (foldl add_vector [] vectorResults) masterResults)
          themeResults)"

text \<open>
  \<open>Array.prototype.sort\<close> is stable and the comparator \<open>b.score - a.score\<close> orders by
  descending score: the stable insertion sort on the negated score.
\<close>

definition combineSearchResults ::
  "scored_chunk list \<times> scored_chunk list \<times> scored_chunk list \<Rightarrow> scored_chunk list" where
  "combineSearchResults searchResults =
     sort_key (\<lambda>c. - sc_score c) (map_values (combined_map searchResults))"

text \<open>
  \<open>parseInt(process.env.MAX_CONTEXT_TOKENS) || 800000\<close>: the argument is what
  \<open>parseInt\<close> returns, \<open>None\<close> for \<open>NaN\<close> (variable unset or not a number); \<open>NaN\<close>
  and \<open>0\<close> are falsy.
\<close>

definition maxTokens :: "int option \<Rightarrow> int" where
  "maxTokens env = (case env of None \<Rightarrow> 800000 | Some n \<Rightarrow> if n = 0 then 800000 else n)"

text \<open>
  The \<open>for ... of\<close> loop of \<open>selectBestChunks\<close>, with \<open>totalTokens\<close> and
  \<open>selectedChunks\<close> as accumulators; the \<open>break\<close> is tested after every iteration.
\<close>

fun select_loop :: "int \<Rightarrow> scored_chunk list \<Rightarrow> int \<Rightarrow> scored_chunk list \<Rightarrow> scored_chunk list" where
  "select_loop maxT [] totalTokens selectedChunks = selectedChunks"
| "select_loop maxT (c # results) totalTokens selectedChunks =
     (if totalTokens + sc_token_count c < maxT
      then (if length (selectedChunks @ [c]) \<ge> 20 then selectedChunks @ [c]
            else select_loop maxT results (totalTokens + sc_token_count c) (selectedChunks @ [c]))
      else (if length selectedChunks \<ge> 20 then selectedChunks
            else select_loop maxT results totalTokens selectedChunks))"

definition selectBestChunks :: "int option \<Rightarrow> scored_chunk list \<Rightarrow> scored_chunk list" where
  "selectBestChunks env results = select_loop (maxTokens env) results 0 []"

definition total_tokens :: "scored_chunk list \<Rightarrow> int" where
  "total_tokens cs = sum_list (map sc_token_count cs)"

text \<open>The fused score of a chunk id: the score of its entry in the ranked list.\<close>

definition fused_score ::
  "scored_chunk list \<times> scored_chunk list \<times> scored_chunk list \<Rightarrow> js_string \<Rightarrow> rat option" where
  "fused_score searchResults cid =
     map_option sc_score (find (\<lambda>c. sc_id c = cid) (combineSearchResults searchResults))"

text \<open>How often an id occurs in a result stream, and the stream without that id.\<close>

definition occurrences :: "scored_chunk list \<Rightarrow> js_string \<Rightarrow> nat" where
  "occurrences rs cid = length (filter (\<lambda>c. sc_id c = cid) rs)"

definition without :: "js_string \<Rightarrow> scored_chunk list \<Rightarrow> scored_chunk list" where
  "without cid rs = filter (\<lambda>c. sc_id c \<noteq> cid) rs"

text \<open>
  The similarity score of an id: \<open>combined.set\<close> overwrites, so the last vector result
  with this id counts.
\<close>

definition vector_score :: "scored_chunk list \<Rightarrow> js_string \<Rightarrow> rat option" where
  "vector_score vs cid = map_option sc_score (find (\<lambda>c. sc_id c = cid) (rev vs))"


text \<open>
  The scenario of the specification: chunk A (200 tokens, similarity 0.9) and chunk B
  (150 tokens, similarity 0.6) from the vector search, and chunk B again from the theme
  search, where \<open>getChunksByIds\<close> gives every row the score 0.7.
\<close>

definition scenario_A :: scored_chunk where
  "scenario_A = \<lparr>sc_id = js ''A'', sc_exact_reference = js ''Book:1'', sc_token_count = 200,
     sc_score = 0.9, sc_source = None\<rparr>"

definition scenario_B :: scored_chunk where
  "scenario_B = \<lparr>sc_id = js ''B'', sc_exact_reference = js ''Book:2'', sc_token_count = 150,
     sc_score = 0.6, sc_source = None\<rparr>"

definition scenario_B_theme :: scored_chunk where
  "scenario_B_theme = scenario_B\<lparr>sc_score := 0.7\<rparr>"

definition scenario :: "scored_chunk list \<times> scored_chunk list \<times> scored_chunk list" where
  "scenario = ([], [scenario_A, scenario_B], [scenario_B_theme])"

text \<open>A chunk with a low similarity score, as both services return it.\<close>

definition low_vector :: scored_chunk where
  "low_vector = \<lparr>sc_id = js ''X'', sc_exact_reference = js ''Book:3'', sc_token_count = 10,
     sc_score = 0.2, sc_source = None\<rparr>"

definition low_master :: scored_chunk where
  "low_master = low_vector\<lparr>sc_score := 0.7\<rparr>"



section \<open>The query route: \<open>router.post('/ask')\<close> in \<open>src/routes/query.js\<close>\<close>

text \<open>
  \<open>analyzeQuery\<close> returns what \<open>JSON.parse\<close> makes of the model's reply, unvalidated.
  A field that the searches iterate is, in the parsed value, absent or another falsy
  value that cannot be iterated (\<open>undefined\<close>, \<open>null\<close>, \<open>false\<close>, \<open>0\<close>), a truthy value
  that cannot be iterated (a number, \<open>true\<close>, an object), a string, or an array, whose
  elements are taken as strings.
\<close>

datatype json_field = Absent | Not_iterable | Text js_string | Items "js_string list"

record query_analysis =
  qa_themes :: json_field
  qa_suspected_books :: json_field
  qa_key_terms :: json_field
  qa_hebrew_query :: "js_string option"




record precise_answer =
  pa_answer :: js_string
  pa_confidence :: rat
  pa_citations :: "js_string list"

text \<open>A row of \<open>text_chunks\<close> as the master index selects it; the score is a constant of the statement.\<close>

record found_row =
  fr_id :: js_string
  fr_exact_reference :: js_string
  fr_token_count :: int


text \<open>
  The collaborators of one request, as parameters: each call returns its value or
  rejects.  \<open>index_rows\<close> is the statement of \<open>searchByTerm\<close> on \<open>master_index\<close> for a
  term and an index type, returning the \<open>related_chunks\<close> of every row (\<open>NULL\<close> is
  \<open>None\<close>); \<open>chunk_rows\<close> is the statement of \<open>getChunksByIds\<close>, \<open>book_rows\<close> the one of
  \<open>searchByBook\<close>, and \<open>nearest_chunks\<close> the one of \<open>VectorSearchService.search\<close> for
  an embedding and a limit.  \<open>analyzeQuery\<close> returns \<open>None\<close> for the JSON \<open>null\<close>.
  \<open>vector_ready\<close> and \<open>index_ready\<close> are the step
  \<open>if (!this.initialized) await this.init()\<close> at the head of the searches of the two
  services: \<open>init\<close> throws when \<open>getPostgreSQLPool\<close> does, and \<open>initServices\<close> of the
  route does not call it again for a service that it created in an earlier request.
\<close>

record world =
  initServices :: "error + unit"
  vector_ready :: "error + unit"
  index_ready :: "error + unit"
  analyzeQuery :: "js_string \<Rightarrow> error + query_analysis option"
  index_rows :: "js_string \<Rightarrow> js_string \<Rightarrow> error + js_string list option list"
  chunk_rows :: "js_string list \<Rightarrow> error + found_row list"
  book_rows :: "js_string \<Rightarrow> error + found_row list"
  generateEmbedding :: "js_string option \<Rightarrow> error + rat list"
  nearest_chunks :: "rat list \<Rightarrow> nat \<Rightarrow> error + scored_chunk list"
  generatePreciseAnswer ::
    "js_string \<Rightarrow> scored_chunk list \<Rightarrow> query_analysis \<Rightarrow> error + precise_answer"
























section \<open>Master index: \<open>MasterIndexService\<close> in \<open>src/services/database.js\<close>\<close>

text \<open>
  A row that \<open>buildIndexFromChunks\<close> selects from \<open>text_chunks JOIN books\<close>.  The
  columns \<open>themes\<close> and \<open>keywords\<close> are \<open>TEXT[]\<close> and may be \<open>NULL\<close>.
  \<open>exact_reference\<close> and \<open>hebrew_text\<close> are selected and never read.
\<close>

record chunk_row =
  row_id :: js_string
  row_themes :: "js_string list option"
  row_keywords :: "js_string list option"
  row_book_title :: js_string

text \<open>
  The value of \<open>themeMap\<close> and \<open>keywordMap\<close>: \<open>{chunks: [], books: new Set(), frequency: 0}\<close>.
  A \<open>Set\<close> keeps insertion order: a list without duplicates.
\<close>

record term_data =
  td_chunks :: "js_string list"
  td_books :: "js_string list"
  td_frequency :: nat

definition set_add :: "'a list \<Rightarrow> 'a \<Rightarrow> 'a list" where
  "set_add s x = (if x \<in> set s then s else s @ [x])"

definition empty_term_data :: term_data where
  "empty_term_data = \<lparr>td_chunks = [], td_books = [], td_frequency = 0\<rparr>"

text \<open>
  The body of the two inner iterations: create the entry when the term is new, then push the
  chunk id, add the book title and count the occurrence.
\<close>

definition add_term ::
  "(js_string \<times> term_data) list \<Rightarrow> chunk_row \<Rightarrow> js_string \<Rightarrow> (js_string \<times> term_data) list" where
  "add_term m chunk term =
     (let m1 = (if map_get m term = None then map_set m term empty_term_data else m);
          d = (case map_get m1 term of Some d \<Rightarrow> d | None \<Rightarrow> empty_term_data)
      in map_set m1 term
           (d\<lparr>td_chunks := td_chunks d @ [row_id chunk],
              td_books := set_add (td_books d) (row_book_title chunk),
              td_frequency := td_frequency d + 1\<rparr>))"

definition add_terms ::
  "(js_string \<times> term_data) list \<Rightarrow> chunk_row \<Rightarrow> js_string list option
     \<Rightarrow> (js_string \<times> term_data) list" where
  "add_terms m chunk terms =
     (case terms of None \<Rightarrow> m | Some ts \<Rightarrow> foldl (\<lambda>m t. add_term m chunk t) m ts)"

text \<open>The loop over the chunks fills both maps.\<close>

definition build_maps ::
  "chunk_row list \<Rightarrow> (js_string \<times> term_data) list \<times> (js_string \<times> term_data) list" where
  "build_maps chunks =
     foldl (\<lambda>(themeMap, keywordMap) chunk.
              (add_terms themeMap chunk (row_themes chunk),
               add_terms keywordMap chunk (row_keywords chunk)))
       ([], []) chunks"

definition calculateImportanceScore :: "nat \<Rightarrow> nat \<Rightarrow> rat" where
  "calculateImportanceScore frequency bookCount =
     (let frequencyScore = min (of_nat frequency / 10) 1.0;
          distributionScore = min (of_nat bookCount / 5) 1.0
      in frequencyScore * 0.7 + distributionScore * 0.3)"

text \<open>
  \<open>hebrewMap[term.toLowerCase()] || null\<close>.  The keys and the Hebrew words are given by
  their code units.  \<open>String.prototype.toLowerCase\<close> follows the Unicode case tables
  and is a parameter; properties that \<open>hebrewMap\<close> inherits from \<open>Object.prototype\<close>
  are not modelled.
\<close>

definition hebrewMap :: "(js_string \<times> js_string) list" where
  "hebrewMap =
     [(js ''joie'', [1513, 1502, 1495, 1492]),
      ([112, 114, 105, 232, 114, 101], [1514, 1508, 1497, 1500, 1492]),
      (js ''repentir'', [1514, 1513, 1493, 1489, 1492]),
      (js ''foi'', [1488, 1502, 1493, 1504, 1492]),
      ([109, 233, 100, 105, 116, 97, 116, 105, 111, 110],
         [1492, 1514, 1489, 1493, 1491, 1491, 1493, 1514]),
      (js ''torah'', [1514, 1493, 1512, 1492]),
      (js ''mitzvah'', [1502, 1510, 1493, 1492]),
      (js ''tsaddik'', [1510, 1491, 1497, 1511])]"

definition extractHebrewEquivalent ::
  "(js_string \<Rightarrow> js_string) \<Rightarrow> js_string \<Rightarrow> js_string option" where
  "extractHebrewEquivalent toLowerCase term = map_of hebrewMap (toLowerCase term)"

text \<open>
  A row of \<open>master_index\<close>, as \<open>addIndexEntry\<close> writes it.  The columns \<open>id\<close> and
  \<open>created_at\<close> are filled by the store (\<open>gen_random_uuid()\<close>, \<open>NOW()\<close>) and are
  left out; \<open>cross_references\<close> is the JSON object of the row, always \<open>{}\<close> here.
\<close>

record index_entry =
  index_type :: js_string
  key_term :: js_string
  hebrew_term :: "js_string option"
  related_chunks :: "js_string list"
  book_references :: "js_string list"
  frequency :: nat
  importance_score :: rat
  cross_references :: "(js_string \<times> js_string) list"

type_synonym master_index = "index_entry list"

definition entry_key :: "index_entry \<Rightarrow> js_string \<times> js_string" where
  "entry_key e = (key_term e, index_type e)"

text \<open>The object that the two insertion passes hand to \<open>addIndexEntry\<close>.\<close>

definition make_entry ::
  "(js_string \<Rightarrow> js_string) \<Rightarrow> js_string \<Rightarrow> js_string \<times> term_data \<Rightarrow> index_entry" where
  "make_entry toLowerCase ty td =
     (case td of (term, data) \<Rightarrow>
        \<lparr>index_type = ty,
         key_term = term,
         hebrew_term = extractHebrewEquivalent toLowerCase term,
         related_chunks = td_chunks data,
         book_references = td_books data,
         frequency = td_frequency data,
         importance_score = calculateImportanceScore (td_frequency data) (length (td_books data)),
         cross_references = []\<rparr>)"

definition index_entries :: "(js_string \<Rightarrow> js_string) \<Rightarrow> chunk_row list \<Rightarrow> index_entry list" where
  "index_entries toLowerCase chunks =
     (case build_maps chunks of (themeMap, keywordMap) \<Rightarrow>
        map (make_entry toLowerCase (js ''theme'')) themeMap
        @ map (make_entry toLowerCase (js ''concept'')) keywordMap)"

text \<open>
  The store.  Every \<open>pool.query\<close> is a statement of its own, committed when it
  returns: \<open>buildIndexFromChunks\<close> opens no transaction.

  \<open>INSERT ... ON CONFLICT (key_term, index_type) DO UPDATE\<close> is accepted by PostgreSQL
  only when a unique index or constraint covers exactly these columns; otherwise the
  statement fails.  \<open>createTables\<close> declares \<open>idx_master_index_key\<close> as a plain index,
  so on the schema of \<open>createTables\<close> the flag \<open>unique_key\<close> is \<open>False\<close>; \<open>True\<close> is
  a store to which the unique index has been added.  With the unique index, the row in
  conflict gets the five columns of \<open>DO UPDATE SET\<close> and keeps \<open>hebrew_term\<close>.
\<close>

definition upsert :: "index_entry \<Rightarrow> master_index \<Rightarrow> master_index" where
  "upsert indexData table =
     (if entry_key indexData \<in> entry_key ` set table
      then map (\<lambda>row. if entry_key row = entry_key indexData
                       then row\<lparr>related_chunks := related_chunks indexData,
                                book_references := book_references indexData,
                                frequency := frequency indexData,
                                importance_score := importance_score indexData,
                                cross_references := cross_references indexData\<rparr>
                       else row) table
      else table @ [indexData])"

definition addIndexEntry :: "bool \<Rightarrow> index_entry \<Rightarrow> master_index \<Rightarrow> error + master_index" where
  "addIndexEntry unique_key indexData table =
     (if unique_key then Inr (upsert indexData table)
      else Inl (Error (js ''there is no unique or exclusion constraint matching the ON CONFLICT specification'')))"

text \<open>The statements that \<open>buildIndexFromChunks\<close> sends to \<open>master_index\<close>, in order.\<close>

datatype statement = DeleteAll | AddIndexEntry index_entry

fun execute :: "bool \<Rightarrow> statement \<Rightarrow> master_index \<Rightarrow> error + master_index" where
  "execute unique_key DeleteAll table = Inr []"
| "execute unique_key (AddIndexEntry e) table = addIndexEntry unique_key e table"

definition rebuild_statements ::
  "(js_string \<Rightarrow> js_string) \<Rightarrow> chunk_row list \<Rightarrow> statement list" where
  "rebuild_statements toLowerCase chunks =
     DeleteAll # map AddIndexEntry (index_entries toLowerCase chunks)"

text \<open>
  Running statements one after the other; the first failure is rethrown and the
  statements before it stay committed.  The result is the table left behind and the
  error, if any.
\<close>

fun run :: "bool \<Rightarrow> statement list \<Rightarrow> master_index \<Rightarrow> master_index \<times> error option" where
  "run unique_key [] table = (table, None)"
| "run unique_key (s # ss) table =
     (case execute unique_key s table of
        Inl e \<Rightarrow> (table, Some e)
      | Inr table' \<Rightarrow> run unique_key ss table')"

definition buildIndexFromChunks ::
  "bool \<Rightarrow> (js_string \<Rightarrow> js_string) \<Rightarrow> chunk_row list \<Rightarrow> master_index
     \<Rightarrow> master_index \<times> error option" where
  "buildIndexFromChunks unique_key toLowerCase chunks table =
     run unique_key (rebuild_statements toLowerCase chunks) table"

text \<open>
  The states of \<open>master_index\<close> that a reader can see while the statements run: the
  table before the first statement and after every statement that succeeded.
\<close>

fun visible_states :: "bool \<Rightarrow> statement list \<Rightarrow> master_index \<Rightarrow> master_index list" where
  "visible_states unique_key [] table = [table]"
| "visible_states unique_key (s # ss) table =
     table # (case execute unique_key s table of
                Inl e \<Rightarrow> []
              | Inr table' \<Rightarrow> visible_states unique_key ss table')"

definition rebuild_states ::
  "bool \<Rightarrow> (js_string \<Rightarrow> js_string) \<Rightarrow> chunk_row list \<Rightarrow> master_index \<Rightarrow> master_index list" where
  "rebuild_states unique_key toLowerCase chunks table =
     visible_states unique_key (rebuild_statements toLowerCase chunks) table"

text \<open>
  A rebuild interrupted after \<open>k\<close> statements (the process stops, or the connection is
  lost) leaves what these statements wrote.
\<close>

definition interrupted_rebuild ::
  "nat \<Rightarrow> bool \<Rightarrow> (js_string \<Rightarrow> js_string) \<Rightarrow> chunk_row list \<Rightarrow> master_index \<Rightarrow> master_index" where
  "interrupted_rebuild k unique_key toLowerCase chunks table =
     fst (run unique_key (take k (rebuild_statements toLowerCase chunks)) table)"


text \<open>
  The terms of a row in a column, how often a term occurs over all rows, and the titles
  of the books it occurs in.
\<close>

definition terms_of :: "(chunk_row \<Rightarrow> js_string list option) \<Rightarrow> chunk_row \<Rightarrow> js_string list" where
  "terms_of column chunk = (case column chunk of None \<Rightarrow> [] | Some ts \<Rightarrow> ts)"

definition term_frequency ::
  "(chunk_row \<Rightarrow> js_string list option) \<Rightarrow> chunk_row list \<Rightarrow> js_string \<Rightarrow> nat" where
  "term_frequency column chunks t = sum_list (map (\<lambda>c. count_list (terms_of column c) t) chunks)"

definition term_books ::
  "(chunk_row \<Rightarrow> js_string list option) \<Rightarrow> chunk_row list \<Rightarrow> js_string \<Rightarrow> js_string set" where
  "term_books column chunks t =
     row_book_title ` {c \<in> set chunks. t \<in> set (terms_of column c)}"

text \<open>Two rows of two books, and an index left by an earlier build.\<close>

definition row1 :: chunk_row where
  "row1 = \<lparr>row_id = js ''c1'', row_themes = Some [js ''joie'', js ''foi''],
            row_keywords = Some [js ''torah''], row_book_title = js ''Likutei Moharan''\<rparr>"

definition row2 :: chunk_row where
  "row2 = \<lparr>row_id = js ''c2'', row_themes = Some [js ''joie''],
            row_keywords = None, row_book_title = js ''Sichot HaRan''\<rparr>"

definition old_index :: master_index where
  "old_index = [\<lparr>index_type = js ''theme'', key_term = js ''joie'', hebrew_term = None,
      related_chunks = [js ''c0''], book_references = [js ''Likutei Moharan''], frequency = 1,
      importance_score = 0.13, cross_references = []\<rparr>]"


section \<open>Semantic chunking: \<open>src/services/chunker.js\<close>\<close>

subsection \<open>Strings\<close>

text \<open>
  The characters that the regular expression class \<open>\s\<close> and \<open>String.prototype.trim\<close>
  take for white space: tab, line feed, vertical tab, form feed, carriage return, space,
  U+00A0, U+1680, U+2000 to U+200A, U+2028, U+2029, U+202F, U+205F, U+3000 and U+FEFF.
\<close>

definition is_space :: "nat \<Rightarrow> bool" where
  "is_space c \<longleftrightarrow>
     c = 9 \<or> c = 10 \<or> c = 11 \<or> c = 12 \<or> c = 13 \<or> c = 32 \<or> c = 160 \<or> c = 5760
     \<or> (8192 \<le> c \<and> c \<le> 8202) \<or> c = 8232 \<or> c = 8233 \<or> c = 8239 \<or> c = 8287
     \<or> c = 12288 \<or> c = 65279"

definition trim :: "js_string \<Rightarrow> js_string" where
  "trim s = rev (dropWhile is_space (rev (dropWhile is_space s)))"

text \<open>\<open>s.trim()\<close> as a condition, and \<open>s.trim().length > 0\<close>: some character is not white space.\<close>

definition nonblank :: "js_string \<Rightarrow> bool" where
  "nonblank s \<longleftrightarrow> trim s \<noteq> []"

text \<open>
  \<open>text.split(/[...]+/)\<close> for a character class: the pieces between the maximal runs
  of separators.  A separator that is followed by another one continues the run; the
  last separator of a run closes the piece \<open>cur\<close>.  A run at the start or at the end of
  the text gives an empty first or last piece, and the empty text gives one empty piece.
\<close>

fun split_on :: "(nat \<Rightarrow> bool) \<Rightarrow> js_string \<Rightarrow> js_string \<Rightarrow> js_string list" where
  "split_on sep cur [] = [cur]"
| "split_on sep cur (c # cs) =
     (if sep c
      then (if cs \<noteq> [] \<and> sep (hd cs) then split_on sep cur cs
            else cur # split_on sep [] cs)
      else split_on sep (cur @ [c]) cs)"

text \<open>
  \<open>text.split(/\n\s*\n/)\<close>.  A match starts at a line feed whose following run of white
  space holds another line feed, and, \<open>\s*\<close> being greedy, ends at the last line feed
  of that run; what the run holds after this line feed begins the next piece.
\<close>

definition after_last_newline :: "js_string \<Rightarrow> js_string" where
  "after_last_newline ws = rev (takeWhile (\<lambda>c. c \<noteq> 10) (rev ws))"

function split_blank_lines :: "js_string \<Rightarrow> js_string \<Rightarrow> js_string list" where
  "split_blank_lines cur [] = [cur]"
| "split_blank_lines cur (c # cs) =
     (if c = 10 \<and> 10 \<in> set (takeWhile is_space cs)
      then cur # split_blank_lines []
                   (after_last_newline (takeWhile is_space cs) @ dropWhile is_space cs)
      else split_blank_lines (cur @ [c]) cs)"
  by pat_completeness auto
termination
proof (relation "measure (\<lambda>(cur, s). length s)")
  fix cur :: js_string and c :: nat and cs :: js_string
  have "length (after_last_newline (takeWhile is_space cs)) \<le> length (takeWhile is_space cs)"
    unfolding after_last_newline_def length_rev by (rule length_takeWhile_le [THEN order_trans]) simp
  moreover have "length (takeWhile is_space cs) + length (dropWhile is_space cs) = length cs"
    by (metis length_append takeWhile_dropWhile_id)
  ultimately show "((([] :: js_string),
        after_last_newline (takeWhile is_space cs) @ dropWhile is_space cs), (cur, c # cs))
      \<in> measure (\<lambda>(cur, s). length s)"
    by simp
qed simp_all

definition splitIntoParagraphs :: "js_string \<Rightarrow> js_string list" where
  "splitIntoParagraphs text = filter nonblank (split_blank_lines [] text)"

text \<open>The sentence ends \<open>. ! ?\<close> and the Hebrew sof pasuq (U+05C3) and paseq (U+05C0).\<close>

definition is_sentence_end :: "nat \<Rightarrow> bool" where
  "is_sentence_end c \<longleftrightarrow> c = 46 \<or> c = 33 \<or> c = 63 \<or> c = 1475 \<or> c = 1472"

definition splitIntoSentences :: "js_string \<Rightarrow> js_string list" where
  "splitIntoSentences text = filter nonblank (split_on is_sentence_end [] text)"

text \<open>\<open>Array.prototype.join\<close>.\<close>

fun js_join :: "js_string \<Rightarrow> js_string list \<Rightarrow> js_string" where
  "js_join sep [] = []"
| "js_join sep [x] = x"
| "js_join sep (x # y # ys) = x @ sep @ js_join sep (y # ys)"

text \<open>
  \<open>Array.prototype.slice(start)\<close>: a negative \<open>start\<close> counts from the end, and
  \<open>slice(-0)\<close> is \<open>slice(0)\<close>, the whole array.
\<close>

definition js_slice :: "int \<Rightarrow> 'a list \<Rightarrow> 'a list" where
  "js_slice start xs =
     (if start < 0 then drop (nat (max (int (length xs) + start) 0)) xs
      else drop (nat start) xs)"

text \<open>The decimal digits of a number, as a template literal prints it.\<close>

fun decimal :: "nat \<Rightarrow> js_string" where
  "decimal n = (if n < 10 then [48 + n] else decimal (n div 10) @ [48 + n mod 10])"

declare decimal.simps [simp del]

text \<open>\<open>Math.ceil(text.length / 4)\<close>.\<close>

definition estimateTokenCount :: "js_string \<Rightarrow> int" where
  "estimateTokenCount text = (int (length text) + 3) div 4"


subsection \<open>Configuration, sections and chunks\<close>

text \<open>
  The constructor: \<open>parseInt(process.env.CHUNK_SIZE) || 10000\<close> and
  \<open>parseInt(process.env.OVERLAP_PERCENTAGE) || 15\<close>, the argument being the value of
  \<open>parseInt\<close> (\<open>None\<close> for \<open>NaN\<close>).  \<open>maxChunkSize\<close> is assigned and never read.
\<close>

record config =
  chunkSize :: int
  overlapPercentage :: int

definition or_default :: "int option \<Rightarrow> int \<Rightarrow> int" where
  "or_default env d = (case env of None \<Rightarrow> d | Some n \<Rightarrow> if n = 0 then d else n)"

definition SemanticChunker :: "int option \<Rightarrow> int option \<Rightarrow> config" where
  "SemanticChunker env_chunk_size env_overlap =
     \<lparr>chunkSize = or_default env_chunk_size 10000,
      overlapPercentage = or_default env_overlap 15\<rparr>"

text \<open>
  A text of a section is an array of strings or a string.  A section is what
  \<open>extractSections\<close> returns; \<open>chunkBook\<close> below takes the list of sections.
\<close>

datatype text_field = TextArray "js_string list" | TextString js_string

record book_section =
  sec_title :: js_string
  sec_hebrew_text :: text_field
  sec_english_text :: text_field
  sec_reference :: js_string

record book_metadata =
  bm_id :: js_string
  bm_title :: js_string

text \<open>
  JSON values, for what \<open>JSON.parse\<close> makes of the analysis reply.
\<close>

datatype json =
    JNull | JBool bool | JNum rat | JStr js_string | JArr "json list"
  | JObj "(js_string \<times> json) list"

text \<open>
  A chunk as \<open>createChunk\<close> returns it.  \<open>id\<close> (a fresh UUID), \<open>metadata.created_at\<close>
  (the clock) and the copies of the book's \<open>hebrew_title\<close>, \<open>category\<close> and
  \<open>extraction_method\<close> are left out.
\<close>

record chunk =
  book_id :: js_string
  chunk_index :: nat
  content :: js_string
  hebrew_text :: "js_string option"
  exact_reference :: js_string
  section_title :: js_string
  paragraph_number :: nat
  token_count :: int
  chunk_summary :: js_string
  themes :: json
  chunk_keywords :: json
  book_title :: js_string
  is_complete_section :: bool

text \<open>The calls of the logger in \<open>chunker.js\<close>, one constructor for each call.\<close>

datatype log_entry =
    Info_starting_chunking js_string
  | Debug_processing_section nat nat js_string
  | Warn_empty_section nat js_string
  | Warn_analysis_failed js_string
  | Warn_summary_failed js_string
  | Info_chunking_complete nat js_string

datatype log_level = Warn | Info | Debug

fun level :: "log_entry \<Rightarrow> log_level" where
  "level (Info_starting_chunking _) = Info"
| "level (Debug_processing_section _ _ _) = Debug"
| "level (Warn_empty_section _ _) = Warn"
| "level (Warn_analysis_failed _) = Warn"
| "level (Warn_summary_failed _) = Warn"
| "level (Info_chunking_complete _ _) = Info"


subsection \<open>The model calls of \<open>createChunk\<close>\<close>

text \<open>
  The two prompts are templates over a title and the start of the content.  The
  collaborators are parameters: \<open>chatCompletion\<close> answers a request with a rejection or
  with the value of \<open>response.choices[0].message.content\<close> (\<open>None\<close> when the response
  has no such string, which makes the access or the next call throw), and \<open>JSON.parse\<close>
  throws or returns a value.
\<close>

datatype chat_request =
    Analysis_prompt js_string js_string
  | Summary_prompt js_string js_string

record collaborators =
  chatCompletion :: "chat_request \<Rightarrow> error + js_string option"
  JSON_parse :: "js_string \<Rightarrow> error + json"

text \<open>
  Reading a property of a parsed value: \<open>null\<close> throws, an object gives the value of
  the key or \<open>undefined\<close>, every other value gives \<open>undefined\<close> for the keys read here.
\<close>

definition get_property :: "json \<Rightarrow> js_string \<Rightarrow> error + json option" where
  "get_property v key =
     (case v of
        JNull \<Rightarrow> Inl (Error (js ''Cannot read properties of null''))
      | JObj kvs \<Rightarrow> Inr (map_of kvs key)
      | _ \<Rightarrow> Inr None)"

fun truthy :: "json \<Rightarrow> bool" where
  "truthy JNull = False"
| "truthy (JBool b) = b"
| "truthy (JNum n) = (n \<noteq> 0)"
| "truthy (JStr s) = (s \<noteq> [])"
| "truthy (JArr _) = True"
| "truthy (JObj _) = True"

text \<open>\<open>x || []\<close>.\<close>

definition or_empty_array :: "json option \<Rightarrow> json" where
  "or_empty_array x = (case x of Some v \<Rightarrow> if truthy v then v else JArr [] | None \<Rightarrow> JArr [])"

record analysis =
  an_themes :: json
  an_keywords :: json
  an_hebrew_concepts :: json

text \<open>The \<open>try\<close> block of \<open>analyzeChunkContent\<close>; \<open>Inl\<close> is what it throws.\<close>

definition analysis_attempt :: "collaborators \<Rightarrow> js_string \<Rightarrow> js_string \<Rightarrow> error + analysis" where
  "analysis_attempt env text bookTitle =
     (case chatCompletion env (Analysis_prompt bookTitle (take 1000 text)) of
        Inl e \<Rightarrow> Inl e
      | Inr None \<Rightarrow> Inl (Error (js ''Cannot read properties of undefined''))
      | Inr (Some reply) \<Rightarrow>
          (case JSON_parse env reply of
             Inl e \<Rightarrow> Inl e
           | Inr a \<Rightarrow>
               (case get_property a (js ''themes'') of
                  Inl e \<Rightarrow> Inl e
                | Inr t \<Rightarrow>
                    (case get_property a (js ''keywords'') of
                       Inl e \<Rightarrow> Inl e
                     | Inr k \<Rightarrow>
                         (case get_property a (js ''hebrew_concepts'') of
                            Inl e \<Rightarrow> Inl e
                          | Inr h \<Rightarrow>
                              Inr \<lparr>an_themes = or_empty_array t,
                                   an_keywords = or_empty_array k,
                                   an_hebrew_concepts = or_empty_array h\<rparr>)))))"

definition analyzeChunkContent ::
  "collaborators \<Rightarrow> js_string \<Rightarrow> js_string \<Rightarrow> log_entry list \<times> analysis" where
  "analyzeChunkContent env text bookTitle =
     (case analysis_attempt env text bookTitle of
        Inr a \<Rightarrow> ([], a)
      | Inl e \<Rightarrow> ([Warn_analysis_failed (message e)],
                  \<lparr>an_themes = JArr [], an_keywords = JArr [], an_hebrew_concepts = JArr []\<rparr>))"

text \<open>The \<open>try\<close> block of \<open>generateChunkSummary\<close>.\<close>

definition summary_attempt :: "collaborators \<Rightarrow> js_string \<Rightarrow> js_string \<Rightarrow> error + js_string" where
  "summary_attempt env text sectionTitle =
     (case chatCompletion env (Summary_prompt sectionTitle (take 800 text)) of
        Inl e \<Rightarrow> Inl e
      | Inr None \<Rightarrow> Inl (Error (js ''Cannot read properties of undefined''))
      | Inr (Some reply) \<Rightarrow> Inr (trim reply))"

definition generateChunkSummary ::
  "collaborators \<Rightarrow> js_string \<Rightarrow> js_string \<Rightarrow> log_entry list \<times> js_string" where
  "generateChunkSummary env text sectionTitle =
     (case summary_attempt env text sectionTitle of
        Inr s \<Rightarrow> ([], s)
      | Inl e \<Rightarrow> ([Warn_summary_failed (message e)], js ''Enseignement de '' @ sectionTitle))"

text \<open>
  \<open>extractHebrewFromContent\<close>: the original Hebrew when it is truthy (an array always
  is), otherwise the runs of Hebrew letters, direction marks and white space of the
  content, joined and trimmed, or \<open>null\<close> when there is no such run.
\<close>

definition is_hebrew_or_space :: "nat \<Rightarrow> bool" where
  "is_hebrew_or_space c \<longleftrightarrow> (1424 \<le> c \<and> c \<le> 1535) \<or> c = 8207 \<or> c = 8206 \<or> is_space c"

definition hebrew_runs :: "js_string \<Rightarrow> js_string list" where
  "hebrew_runs text = filter (\<lambda>r. r \<noteq> []) (split_on (\<lambda>c. \<not> is_hebrew_or_space c) [] text)"

definition hebrew_of_content :: "js_string \<Rightarrow> js_string option" where
  "hebrew_of_content text =
     (if hebrew_runs text = [] then None else Some (trim (js_join (js '' '') (hebrew_runs text))))"

definition extractHebrewFromContent :: "js_string \<Rightarrow> text_field option \<Rightarrow> js_string option" where
  "extractHebrewFromContent text originalHebrew =
     (case originalHebrew of
        Some (TextArray a) \<Rightarrow> Some (js_join (js '' '') a)
      | Some (TextString s) \<Rightarrow> if s \<noteq> [] then Some s else hebrew_of_content text
      | None \<Rightarrow> hebrew_of_content text)"

text \<open>The parameters of \<open>createChunk\<close>.\<close>

record chunk_params =
  cp_content :: js_string
  cp_hebrew_text :: "text_field option"
  cp_section_title :: js_string
  cp_exact_reference :: js_string
  cp_chunk_index :: nat
  cp_section_index :: nat
  cp_token_count :: int
  cp_is_complete_section :: bool

definition createChunk ::
  "collaborators \<Rightarrow> book_metadata \<Rightarrow> chunk_params \<Rightarrow> log_entry list \<times> chunk" where
  "createChunk env book params =
     (case analyzeChunkContent env (cp_content params) (bm_title book) of (log1, an) \<Rightarrow>
      case generateChunkSummary env (cp_content params) (cp_section_title params) of
        (log2, summary) \<Rightarrow>
        (log1 @ log2,
         \<lparr>book_id = bm_id book,
          chunk_index = cp_chunk_index params,
          content = cp_content params,
          hebrew_text = extractHebrewFromContent (cp_content params) (cp_hebrew_text params),
          exact_reference = cp_exact_reference params,
          section_title = cp_section_title params,
          paragraph_number = cp_section_index params + 1,
          token_count = (if cp_token_count params \<noteq> 0 then cp_token_count params
                         else estimateTokenCount (cp_content params)),
          chunk_summary = summary,
          themes = or_empty_array (Some (an_themes an)),
          chunk_keywords = or_empty_array (Some (an_keywords an)),
          book_title = bm_title book,
          is_complete_section = cp_is_complete_section params\<rparr>))"


subsection \<open>Splitting a section\<close>

definition combineTexts :: "text_field \<Rightarrow> text_field \<Rightarrow> js_string" where
  "combineTexts hebrew english =
     (let combined = (case hebrew of
                        TextArray a \<Rightarrow> if a \<noteq> [] then js_join (js '' '') a else []
                      | TextString s \<Rightarrow> s)
      in case english of
           TextArray a \<Rightarrow>
             if a \<noteq> [] then combined @ (if combined \<noteq> [] then [10, 10] else []) @ js_join (js '' '') a
             else combined
         | TextString s \<Rightarrow> combined @ (if combined \<noteq> [] then [10, 10] else []) @ s)"

text \<open>
  The variables of \<open>intelligentSplit\<close> that it updates in each iteration, and the log of the
  \<open>createChunk\<close> calls.
\<close>

record split_state =
  currentChunk :: js_string
  currentTokens :: int
  chunkIndex :: nat
  out_chunks :: "chunk list"
  split_log :: "log_entry list"

text \<open>
  \<open>chunks.push(await this.createChunk({content: currentChunk.trim(), ...}))\<close>, the same
  call at the four places of \<open>intelligentSplit\<close>.
\<close>

definition push_chunk ::
  "collaborators \<Rightarrow> book_metadata \<Rightarrow> book_section \<Rightarrow> nat \<Rightarrow> split_state \<Rightarrow> split_state" where
  "push_chunk env book sec sectionIndex st =
     (case createChunk env book
             \<lparr>cp_content = trim (currentChunk st),
              cp_hebrew_text = None,
              cp_section_title = sec_title sec,
              cp_exact_reference = sec_reference sec @ js '':'' @ decimal (chunkIndex st + 1),
              cp_chunk_index = chunkIndex st,
              cp_section_index = sectionIndex,
              cp_token_count = currentTokens st,
              cp_is_complete_section = False\<rparr> of
        (lg, c) \<Rightarrow> st\<lparr>out_chunks := out_chunks st @ [c], split_log := split_log st @ lg\<rparr>)"

text \<open>The body of the loop over the sentences of a paragraph that is too large.\<close>

definition add_sentence ::
  "collaborators \<Rightarrow> config \<Rightarrow> book_metadata \<Rightarrow> book_section \<Rightarrow> nat
     \<Rightarrow> split_state \<Rightarrow> js_string \<Rightarrow> split_state" where
  "add_sentence env cfg book sec sectionIndex st sentence =
     (let sentenceTokens = estimateTokenCount sentence
      in if currentTokens st + sentenceTokens > chunkSize cfg \<and> nonblank (currentChunk st)
         then (push_chunk env book sec sectionIndex st)
                \<lparr>chunkIndex := chunkIndex st + 1,
                 currentChunk := sentence,
                 currentTokens := sentenceTokens\<rparr>
         else st\<lparr>currentChunk :=
                    currentChunk st @ (if currentChunk st \<noteq> [] then js '' '' else []) @ sentence,
                  currentTokens := currentTokens st + sentenceTokens\<rparr>)"

text \<open>The body of the loop over the paragraphs.\<close>

definition add_paragraph ::
  "collaborators \<Rightarrow> config \<Rightarrow> book_metadata \<Rightarrow> book_section \<Rightarrow> nat
     \<Rightarrow> split_state \<Rightarrow> js_string \<Rightarrow> split_state" where
  "add_paragraph env cfg book sec sectionIndex st paragraph =
     (let paragraphTokens = estimateTokenCount paragraph
      in if paragraphTokens > chunkSize cfg
         then (let st1 = (if nonblank (currentChunk st)
                          then (push_chunk env book sec sectionIndex st)
                                 \<lparr>chunkIndex := chunkIndex st + 1,
                                  currentChunk := [],
                                  currentTokens := 0\<rparr>
                          else st)
               in foldl (add_sentence env cfg book sec sectionIndex) st1
                    (splitIntoSentences paragraph))
         else if currentTokens st + paragraphTokens > chunkSize cfg \<and> nonblank (currentChunk st)
         then (push_chunk env book sec sectionIndex st)
                \<lparr>chunkIndex := chunkIndex st + 1,
                 currentChunk := paragraph,
                 currentTokens := paragraphTokens\<rparr>
         else st\<lparr>currentChunk :=
                    currentChunk st @ (if currentChunk st \<noteq> [] then [10, 10] else []) @ paragraph,
                  currentTokens := currentTokens st + paragraphTokens\<rparr>)"

definition initial_split_state :: split_state where
  "initial_split_state =
     \<lparr>currentChunk = [], currentTokens = 0, chunkIndex = 0, out_chunks = [], split_log = []\<rparr>"

definition intelligentSplit ::
  "collaborators \<Rightarrow> config \<Rightarrow> book_metadata \<Rightarrow> js_string \<Rightarrow> book_section \<Rightarrow> nat
     \<Rightarrow> log_entry list \<times> chunk list" where
  "intelligentSplit env cfg book fullText sec sectionIndex =
     (let st = foldl (add_paragraph env cfg book sec sectionIndex) initial_split_state
                 (splitIntoParagraphs fullText);
          st' = (if nonblank (currentChunk st) then push_chunk env book sec sectionIndex st else st)
      in (split_log st', out_chunks st'))"

definition chunkSection ::
  "collaborators \<Rightarrow> config \<Rightarrow> book_metadata \<Rightarrow> book_section \<Rightarrow> nat
     \<Rightarrow> log_entry list \<times> chunk list" where
  "chunkSection env cfg book sec sectionIndex =
     (let fullText = combineTexts (sec_hebrew_text sec) (sec_english_text sec)
      in if \<not> nonblank fullText then ([Warn_empty_section sectionIndex (bm_title book)], [])
         else (let tokenCount = estimateTokenCount fullText
               in if tokenCount \<le> chunkSize cfg
                  then (case createChunk env book
                               \<lparr>cp_content = fullText,
                                cp_hebrew_text = Some (sec_hebrew_text sec),
                                cp_section_title = sec_title sec,
                                cp_exact_reference = sec_reference sec,
                                cp_chunk_index = 0,
                                cp_section_index = sectionIndex,
                                cp_token_count = tokenCount,
                                cp_is_complete_section = True\<rparr> of
                          (lg, c) \<Rightarrow> (lg, [c]))
                  else intelligentSplit env cfg book fullText sec sectionIndex))"


subsection \<open>Overlap and the whole book\<close>

text \<open>
  JavaScript numbers are IEEE doubles.  A non-zero double is a mantissa of at most 53
  bits times a power of two; the pair \<open>(m, e)\<close> stands for \<open>m * 2 ^ e\<close>.  Division and
  multiplication give the double nearest to the exact result, ties to the even mantissa.
  The range of the exponent is not modelled: no overflow or underflow happens at the
  magnitude of a configuration.
\<close>

text \<open>The number of binary digits of a positive integer.\<close>

function bit_length :: "int \<Rightarrow> int" where
  "bit_length n = (if n \<le> 0 then 0 else 1 + bit_length (n div 2))"
  by pat_completeness auto
termination
  by (relation "measure nat") auto

declare bit_length.simps [simp del]

text \<open>The integer nearest to \<open>n / d\<close>, for \<open>0 \<le> n\<close> and \<open>0 < d\<close>, ties to even.\<close>

definition round_half_even :: "int \<Rightarrow> int \<Rightarrow> int" where
  "round_half_even n d =
     (let q = n div d; r = n mod d
      in if 2 * r < d then q else if d < 2 * r then q + 1 else if even q then q else q + 1)"

text \<open>
  \<open>n / d\<close> divided by \<open>2 ^ e\<close>, as a fraction, and the double nearest to \<open>n / d\<close>
  (\<open>d \<noteq> 0\<close>): the exponent is chosen so that the scaled fraction lies between \<open>2 ^ 52\<close>
  and \<open>2 ^ 53\<close>.
\<close>

definition scaled :: "int \<Rightarrow> int \<Rightarrow> int \<Rightarrow> int \<times> int" where
  "scaled a b e = (if 0 \<le> e then (a, b * 2 ^ nat e) else (a * 2 ^ nat (- e), b))"

definition nearest_double :: "int \<Rightarrow> int \<Rightarrow> int \<times> int" where
  "nearest_double n d =
     (if n = 0 then (0, 0)
      else (let a = \<bar>n\<bar>; b = \<bar>d\<bar>;
                e0 = bit_length a - bit_length b - 53;
                e = (case scaled a b e0 of (p, q) \<Rightarrow> if 2 ^ 53 * q \<le> p then e0 + 1 else e0)
            in case scaled a b e of (p, q) \<Rightarrow> (sgn n * sgn d * round_half_even p q, e)))"

text \<open>
  \<open>x / y\<close> and \<open>x * y\<close> for integers \<open>x\<close>, \<open>y\<close> that are doubles themselves (below
  \<open>2 ^ 53\<close> in magnitude, as \<open>parseInt\<close> returns them) and a double \<open>(m, e)\<close>; and
  \<open>Math.floor\<close>.
\<close>

definition js_divide :: "int \<Rightarrow> int \<Rightarrow> int \<times> int" where
  "js_divide x y = nearest_double x y"

definition js_times :: "int \<Rightarrow> int \<times> int \<Rightarrow> int \<times> int" where
  "js_times x y =
     (case y of (m, e) \<Rightarrow>
        if 0 \<le> e then nearest_double (x * m * 2 ^ nat e) 1
        else nearest_double (x * m) (2 ^ nat (- e)))"

definition Math_floor :: "int \<times> int \<Rightarrow> int" where
  "Math_floor y = (case y of (m, e) \<Rightarrow> if 0 \<le> e then m * 2 ^ nat e else m div 2 ^ nat (- e))"

text \<open>
  \<open>Math.floor(this.chunkSize * (this.overlapPercentage / 100))\<close>, and the number of
  words \<open>Math.floor(overlapTokens / 4)\<close>: \<open>overlapTokens\<close> is an integer and the
  division by 4 is exact in doubles.
\<close>

definition overlapTokens :: "config \<Rightarrow> int" where
  "overlapTokens cfg = Math_floor (js_times (chunkSize cfg) (js_divide (overlapPercentage cfg) 100))"

definition overlapWordCount :: "config \<Rightarrow> int" where
  "overlapWordCount cfg = overlapTokens cfg div 4"

definition overlapWords :: "config \<Rightarrow> js_string \<Rightarrow> js_string list" where
  "overlapWords cfg text = js_slice (- overlapWordCount cfg) (split_on is_space [] text)"

text \<open>The body of the loop of \<open>addOverlapBetweenChunks\<close>: what becomes of \<open>nextChunk\<close>.\<close>

definition add_overlap :: "config \<Rightarrow> chunk \<Rightarrow> chunk \<Rightarrow> chunk" where
  "add_overlap cfg currentC nextC =
     (let ws = overlapWords cfg (content currentC)
      in if length ws > 0
         then nextC\<lparr>content := js_join (js '' '') ws @ js '' '' @ content nextC,
                    token_count := token_count nextC + int (length ws)\<rparr>
         else nextC)"

text \<open>
  The loop runs over \<open>i < chunks.length - 1\<close> and changes \<open>chunks[i + 1]\<close>, which is
  the current chunk of the next round.
\<close>

fun addOverlapBetweenChunks :: "config \<Rightarrow> chunk list \<Rightarrow> chunk list" where
  "addOverlapBetweenChunks cfg (currentC # nextC # rest) =
     currentC # addOverlapBetweenChunks cfg (add_overlap cfg currentC nextC # rest)"
| "addOverlapBetweenChunks cfg cs = cs"

text \<open>The loop of \<open>chunkBook\<close> over the sections, from index \<open>i\<close> on.\<close>

fun chunk_sections ::
  "collaborators \<Rightarrow> config \<Rightarrow> book_metadata \<Rightarrow> nat \<Rightarrow> nat \<Rightarrow> book_section list
     \<Rightarrow> log_entry list \<times> chunk list" where
  "chunk_sections env cfg book n i [] = ([], [])"
| "chunk_sections env cfg book n i (sec # secs) =
     (case chunkSection env cfg book sec i of (lg, cs) \<Rightarrow>
      case chunk_sections env cfg book n (i + 1) secs of (lg', cs') \<Rightarrow>
        (Debug_processing_section (i + 1) n (sec_title sec) # lg @ lg', cs @ cs'))"

text \<open>
  \<open>chunkBook\<close>, from the sections that \<open>extractSections\<close> returns: the log and the
  chunks.
\<close>

definition chunkBook ::
  "collaborators \<Rightarrow> config \<Rightarrow> book_metadata \<Rightarrow> book_section list
     \<Rightarrow> log_entry list \<times> chunk list" where
  "chunkBook env cfg book sections =
     (case chunk_sections env cfg book (length sections) 0 sections of (lg, cs) \<Rightarrow>
        (let result = addOverlapBetweenChunks cfg cs
         in (Info_starting_chunking (bm_title book) # lg
               @ [Info_chunking_complete (length result) (bm_title book)],
             result)))"

text \<open>
  The overlap claim, as a test: some non-empty text is both the end of the first content
  and the start of the second.
\<close>

definition ends_where_next_starts :: "js_string \<Rightarrow> js_string \<Rightarrow> bool" where
  "ends_where_next_starts a b \<longleftrightarrow> (\<exists>s \<in> set (prefixes b). s \<noteq> [] \<and> suffix s a)"


section \<open>Notions used to state and prove the properties of fusion\<close>

text \<open>Every entry is stored under its own id, and no id is stored twice.\<close>

definition keyed :: "(js_string \<times> scored_chunk) list \<Rightarrow> bool" where
  "keyed m \<longleftrightarrow> distinct (map fst m) \<and> (\<forall>(k, v) \<in> set m. sc_id v = k)"

text \<open>The score stored for an id in the \<open>Map\<close>.\<close>

definition score_of :: "(js_string \<times> scored_chunk) list \<Rightarrow> js_string \<Rightarrow> rat option" where
  "score_of m k = map_option sc_score (map_get m k)"

text \<open>
  What a pass of boosts makes of a score: \<open>n\<close> occurrences add \<open>n\<close> boosts to a score
  that is present; otherwise the first occurrence inserts the base score and the others
  boost it.
\<close>

definition boosted :: "rat \<Rightarrow> rat \<Rightarrow> rat option \<Rightarrow> nat \<Rightarrow> rat option" where
  "boosted base inc so n =
     (case so of Some s \<Rightarrow> Some (s + inc * of_nat n)
      | None \<Rightarrow> if n = 0 then None else Some (base + inc * of_nat (n - 1)))"



section \<open>Notions used to state and prove the properties of the master index\<close>

text \<open>The fold that fills one of the two maps from one column.\<close>

definition collect ::
  "(chunk_row \<Rightarrow> js_string list option) \<Rightarrow> (js_string \<times> term_data) list \<Rightarrow> chunk_row list
     \<Rightarrow> (js_string \<times> term_data) list" where
  "collect column m chunks = foldl (\<lambda>m c. add_terms m c (column c)) m chunks"

text \<open>What one occurrence does to the data of its term.\<close>

definition bump :: "chunk_row \<Rightarrow> term_data \<Rightarrow> term_data" where
  "bump chunk d =
     d\<lparr>td_chunks := td_chunks d @ [row_id chunk],
       td_books := set_add (td_books d) (row_book_title chunk),
       td_frequency := td_frequency d + 1\<rparr>"

definition data_of :: "(js_string \<times> term_data) list \<Rightarrow> js_string \<Rightarrow> term_data" where
  "data_of m t = (case map_get m t of Some d \<Rightarrow> d | None \<Rightarrow> empty_term_data)"

text \<open>No term is stored twice, and no book title is stored twice for a term.\<close>

definition tidy :: "(js_string \<times> term_data) list \<Rightarrow> bool" where
  "tidy m \<longleftrightarrow> distinct (map fst m) \<and> (\<forall>t. distinct (td_books (data_of m t)))"

text \<open>
  \<open>toLowerCase\<close> on strings of Basic Latin, where it maps \<open>A\<close>-\<open>Z\<close> to \<open>a\<close>-\<open>z\<close>.
\<close>

definition toLowerCase_ascii :: "js_string \<Rightarrow> js_string" where
  "toLowerCase_ascii s = map (\<lambda>c. if 65 \<le> c \<and> c \<le> 90 then c + 32 else c) s"

text \<open>The column that the entries of an index type are built from.\<close>

definition column_of :: "js_string \<Rightarrow> chunk_row \<Rightarrow> js_string list option" where
  "column_of ty = (if ty = js ''theme'' then row_themes else row_keywords)"


section \<open>Notions used to state and prove the properties of the chunker\<close>

text \<open>The text of a section that \<open>chunkSection\<close> splits.\<close>

definition section_text :: "book_section \<Rightarrow> js_string" where
  "section_text sec = combineTexts (sec_hebrew_text sec) (sec_english_text sec)"

text \<open>
  The sentences that exceed the chunk size alone: those of the paragraphs that
  \<open>intelligentSplit\<close> splits by sentences, in the sections that \<open>chunkSection\<close> hands
  to \<open>intelligentSplit\<close>.
\<close>

definition long_sentences :: "config \<Rightarrow> js_string \<Rightarrow> js_string list" where
  "long_sentences cfg fullText =
     concat (map (\<lambda>p. filter (\<lambda>s. chunkSize cfg < estimateTokenCount s) (splitIntoSentences p))
               (filter (\<lambda>p. chunkSize cfg < estimateTokenCount p) (splitIntoParagraphs fullText)))"

definition sentences_alone :: "config \<Rightarrow> book_section list \<Rightarrow> js_string list" where
  "sentences_alone cfg sections =
     concat (map (\<lambda>sec. if nonblank (section_text sec)
                             \<and> chunkSize cfg < estimateTokenCount (section_text sec)
                          then long_sentences cfg (section_text sec) else [])
               sections)"

text \<open>A chunk that is one such sentence: its content and its token count are the sentence's.\<close>

definition sentence_alone :: "config \<Rightarrow> book_section list \<Rightarrow> chunk \<Rightarrow> bool" where
  "sentence_alone cfg sections c \<longleftrightarrow>
     (\<exists>s \<in> set (sentences_alone cfg sections).
        content c = trim s \<and> token_count c = estimateTokenCount s)"

text \<open>
  A chunk within the chunk size or made of one of the sentences \<open>ls\<close>, and what
  \<open>intelligentSplit\<close> keeps true of its variables.
\<close>

definition fits :: "config \<Rightarrow> js_string list \<Rightarrow> chunk \<Rightarrow> bool" where
  "fits cfg ls c \<longleftrightarrow>
     token_count c \<le> chunkSize cfg
     \<or> (\<exists>s \<in> set ls. content c = trim s \<and> token_count c = estimateTokenCount s)"

definition in_budget :: "config \<Rightarrow> js_string list \<Rightarrow> split_state \<Rightarrow> bool" where
  "in_budget cfg ls st \<longleftrightarrow>
     (currentChunk st = [] \<and> currentTokens st = 0
      \<or> nonblank (currentChunk st) \<and> 1 \<le> currentTokens st
        \<and> (currentTokens st \<le> chunkSize cfg
           \<or> currentChunk st \<in> set ls
             \<and> currentTokens st = estimateTokenCount (currentChunk st)))
     \<and> (\<forall>c \<in> set (out_chunks st). fits cfg ls c)"

text \<open>The chunks of a book before \<open>addOverlapBetweenChunks\<close>.\<close>

definition chunks_before_overlap ::
  "collaborators \<Rightarrow> config \<Rightarrow> book_metadata \<Rightarrow> book_section list \<Rightarrow> chunk list" where
  "chunks_before_overlap env cfg book sections =
     snd (chunk_sections env cfg book (length sections) 0 sections)"

text \<open>Collaborators whose model calls are rejected, and collaborators that answer.\<close>

definition rejecting :: collaborators where
  "rejecting = \<lparr>chatCompletion = (\<lambda>req. Inl (Error (js ''OpenRouter API failed: timeout''))),
                JSON_parse = (\<lambda>s. Inl (Error (js ''Unexpected end of JSON input'')))\<rparr>"

definition answering :: collaborators where
  "answering = \<lparr>chatCompletion = (\<lambda>req. Inr (Some (js ''ok''))),
                JSON_parse = (\<lambda>s. Inr (JObj [(js ''themes'', JArr [JStr (js ''joie'')])]))\<rparr>"

definition the_book :: book_metadata where
  "the_book = \<lparr>bm_id = js ''b1'', bm_title = js ''Likutei Moharan''\<rparr>"

definition some_params :: chunk_params where
  "some_params = \<lparr>cp_content = js ''text'', cp_hebrew_text = None,
     cp_section_title = js ''Torah 1'', cp_exact_reference = js ''LM:1'', cp_chunk_index = 0,
     cp_section_index = 0, cp_token_count = 1, cp_is_complete_section = True\<rparr>"

text \<open>Two sections with a Hebrew and an English text each, and a section of one long sentence.\<close>

definition section_one :: book_section where
  "section_one = \<lparr>sec_title = js ''Section 1'', sec_hebrew_text = TextArray [js ''ab''],
     sec_english_text = TextArray [js ''cd''], sec_reference = js ''LM:1''\<rparr>"

definition section_two :: book_section where
  "section_two = \<lparr>sec_title = js ''Section 2'', sec_hebrew_text = TextArray [js ''ef''],
     sec_english_text = TextArray [js ''gh''], sec_reference = js ''LM:2''\<rparr>"

definition long_sentence :: book_section where
  "long_sentence = \<lparr>sec_title = js ''Section 1'', sec_hebrew_text = TextArray [],
     sec_english_text = TextString (js ''aaaaaaaaaaaaaaaaaaaa''), sec_reference = js ''LM:1''\<rparr>"

definition example_chunks :: "chunk list" where
  "example_chunks =
     snd (chunk_sections answering (SemanticChunker None None) the_book 2 0
            [section_one, section_two])"

text \<open>A model call that does not fail.\<close>

definition model_answers :: "collaborators \<Rightarrow> bool" where
  "model_answers env \<longleftrightarrow>
     (\<forall>t b. \<exists>a. analysis_attempt env t b = Inr a) \<and> (\<forall>t b. \<exists>s. summary_attempt env t b = Inr s)"

text \<open>A section of one paragraph of three sentences, and a small configuration.\<close>

definition three_sentences :: book_section where
  "three_sentences = \<lparr>sec_title = js ''Section 1'', sec_hebrew_text = TextArray [],
     sec_english_text = TextString (js ''It is a great mitzvah to be happy always. Prayer is the main weapon of the righteous. There is no despair in the world at all.''),
     sec_reference = js ''LM:1''\<rparr>"

definition small_chunks :: config where
  "small_chunks = SemanticChunker (Some 27) None"

definition tiny_chunks :: config where
  "tiny_chunks = SemanticChunker (Some 3) None"

text \<open>
  Sections of five and of nine paragraphs of four characters, a chunk size of four
  tokens, and the same with an overlap of 100 percent.
\<close>

definition five_paragraphs :: book_section where
  "five_paragraphs = \<lparr>sec_title = js ''Section 1'', sec_hebrew_text = TextArray [],
     sec_english_text = TextString
       (js ''aaaa'' @ [10, 10] @ js ''bbbb'' @ [10, 10] @ js ''cccc'' @ [10, 10] @ js ''dddd''
        @ [10, 10] @ js ''eeee''),
     sec_reference = js ''LM:1''\<rparr>"

definition nine_paragraphs :: book_section where
  "nine_paragraphs = \<lparr>sec_title = js ''Section 1'', sec_hebrew_text = TextArray [],
     sec_english_text = TextString
       (js ''aaaa'' @ [10, 10] @ js ''bbbb'' @ [10, 10] @ js ''cccc'' @ [10, 10] @ js ''dddd''
        @ [10, 10] @ js ''eeee'' @ [10, 10] @ js ''ffff'' @ [10, 10] @ js ''gggg''
        @ [10, 10] @ js ''hhhh'' @ [10, 10] @ js ''iiii''),
     sec_reference = js ''LM:1''\<rparr>"

definition four_tokens :: config where
  "four_tokens = SemanticChunker (Some 4) None"

definition full_overlap :: config where
  "full_overlap = SemanticChunker (Some 4) (Some 100)"
section \<open>Properties of budget selection\<close>

lemma select_loop_budget:
  "totalTokens = total_tokens sel \<Longrightarrow> totalTokens \<le> maxT \<Longrightarrow> length sel < 20 \<Longrightarrow>
   total_tokens (select_loop maxT rs totalTokens sel) \<le> maxT
   \<and> length (select_loop maxT rs totalTokens sel) \<le> 20"
proof (induction rs arbitrary: totalTokens sel)
  case Nil
  then show ?case by simp
next
  case (Cons c rs)
  show ?case
  proof (cases "totalTokens + sc_token_count c < maxT")
    case True
    have tt: "totalTokens + sc_token_count c = total_tokens (sel @ [c])"
      using Cons.prems(1) by (simp add: total_tokens_def)
    show ?thesis
    proof (cases "length (sel @ [c]) \<ge> 20")
      case full: True
      with True tt Cons.prems show ?thesis by simp
    next
      case False
      then have "length (sel @ [c]) < 20" by simp
      from Cons.IH [OF tt _ this] True False show ?thesis by simp
    qed
  next
    case False
    with Cons.prems Cons.IH [OF Cons.prems(1) Cons.prems(2) Cons.prems(3)]
    show ?thesis by simp
  qed
qed

text \<open>
  C3.  For every ranked candidate list and every token budget in effect (the value of
  \<open>maxTokens\<close>, a non-negative number of tokens), the chunks that \<open>selectBestChunks\<close>
  returns have token counts that sum to at most the budget, and there are at most 20
  of them.
\<close>

theorem selectBestChunks_within_budget:
  "0 \<le> maxTokens env \<Longrightarrow>
   total_tokens (selectBestChunks env results) \<le> maxTokens env
   \<and> length (selectBestChunks env results) \<le> 20"
  unfolding selectBestChunks_def
  by (rule select_loop_budget) (simp_all add: total_tokens_def)


lemmas scenario_defs =
  scenario_def scenario_A_def scenario_B_def scenario_B_theme_def
  combineSearchResults_def combined_map_def map_values_def map_get_def
  add_vector_def add_master_def add_theme_def js_def

lemma scenario_fused:
  "combineSearchResults scenario =
     [scenario_A\<lparr>sc_source := Some (js ''vector'')\<rparr>,
      scenario_B\<lparr>sc_score := 0.8, sc_source := Some (js ''vector'')\<rparr>]"
  by (simp add: scenario_defs)

theorem selectBestChunks_within_budget_witness:
  "0 \<le> maxTokens (Some 300)
   \<and> total_tokens (selectBestChunks (Some 300) (combineSearchResults scenario)) \<le> maxTokens (Some 300)
   \<and> length (selectBestChunks (Some 300) (combineSearchResults scenario)) \<le> 20"
proof -
  have h: "0 \<le> maxTokens (Some 300)" by (simp add: maxTokens_def)
  from selectBestChunks_within_budget [OF h, of "combineSearchResults scenario"] h
  show ?thesis by simp
qed

text \<open>
  C2, as stated, fails: with the budget 300 the selection holds A only, because
  \<open>200 + 150 < 300\<close> is false when B is reached.
\<close>

theorem scenario_selection_counterexample:
  "map sc_id (selectBestChunks (Some 300) (combineSearchResults scenario)) = [js ''A'']
   \<and> map sc_id (selectBestChunks (Some 300) (combineSearchResults scenario)) \<noteq> [js ''A'', js ''B'']"
  by (simp add: scenario_fused selectBestChunks_def maxTokens_def)
    (simp add: scenario_defs)

text \<open>
  C2, amended.  On the scenario, fusion ranks A (0.9) before B, whose fused score is
  \<open>0.6 + 0.2 = 0.8\<close>; with the budget 300 budget selection returns A alone; it returns
  A and then B for every budget above 350.
\<close>

theorem scenario_selection:
  "map (\<lambda>c. (sc_id c, sc_score c)) (combineSearchResults scenario)
     = [(js ''A'', 0.9), (js ''B'', 0.6 + 0.2)]
   \<and> map sc_id (selectBestChunks (Some 300) (combineSearchResults scenario)) = [js ''A'']
   \<and> (350 < m \<longrightarrow>
        map sc_id (selectBestChunks (Some m) (combineSearchResults scenario)) = [js ''A'', js ''B''])"
  by (simp add: scenario_fused selectBestChunks_def maxTokens_def)
    (simp add: scenario_defs)

theorem scenario_selection_witness:
  "(350::int) < 351
   \<and> map sc_id (selectBestChunks (Some 351) (combineSearchResults scenario)) = [js ''A'', js ''B'']"
  using scenario_selection [of 351] by simp


section \<open>Properties of fusion scoring\<close>

lemma map_get_map_set:
  "map_get (map_set m k v) k' = (if k' = k then Some v else map_get m k')"
  by (induction m) (auto simp: map_get_def)

lemma keys_map_set:
  "map fst (map_set m k v) = (if k \<in> fst ` set m then map fst m else map fst m @ [k])"
  by (induction m) (force simp: image_iff)+

lemma set_map_set: "set (map_set m k v) \<subseteq> insert (k, v) (set m)"
  by (induction m) (auto split: if_splits)

lemma keyed_map_set: "keyed m \<Longrightarrow> sc_id v = k \<Longrightarrow> keyed (map_set m k v)"
  unfolding keyed_def using set_map_set [of m k v] by (auto simp: keys_map_set)

lemma keyed_map_get: "keyed m \<Longrightarrow> map_get m k = Some e \<Longrightarrow> sc_id e = k"
  unfolding keyed_def map_get_def by (auto dest: map_of_SomeD)

lemma keyed_add_vector: "keyed m \<Longrightarrow> keyed (add_vector m c)"
  by (simp add: add_vector_def keyed_map_set)

lemma keyed_add_master: "keyed m \<Longrightarrow> keyed (add_master m c)"
  by (auto simp: add_master_def keyed_map_set keyed_map_get split: option.splits)

lemma keyed_add_theme: "keyed m \<Longrightarrow> keyed (add_theme m c)"
  by (auto simp: add_theme_def keyed_map_set keyed_map_get split: option.splits)

lemma keyed_foldl:
  "(\<And>m c. keyed m \<Longrightarrow> keyed (f m c)) \<Longrightarrow> keyed m \<Longrightarrow> keyed (foldl f m cs)"
  by (induction cs arbitrary: m) auto

lemma keyed_combined_map: "keyed (combined_map sr)"
proof -
  have "keyed []" by (simp add: keyed_def)
  then show ?thesis
    by (auto simp: combined_map_def split: prod.splits
        intro!: keyed_foldl keyed_add_vector keyed_add_master keyed_add_theme)
qed

lemma score_of_add_vector:
  "score_of (add_vector m c) k = (if sc_id c = k then Some (sc_score c) else score_of m k)"
  by (auto simp: score_of_def add_vector_def map_get_map_set)

lemma score_of_add_master:
  "score_of (add_master m c) k =
     (if sc_id c = k then boosted 0.7 0.3 (score_of m k) 1 else score_of m k)"
  by (auto simp: score_of_def add_master_def map_get_map_set boosted_def split: option.splits)

lemma score_of_add_theme:
  "score_of (add_theme m c) k =
     (if sc_id c = k then boosted 0.5 0.2 (score_of m k) 1 else score_of m k)"
  by (auto simp: score_of_def add_theme_def map_get_map_set boosted_def split: option.splits)

lemma boosted_step:
  "boosted base inc (boosted base inc so (Suc 0)) n = boosted base inc so (Suc n)"
  by (cases so) (auto simp: boosted_def algebra_simps)

lemma score_of_foldl_vector:
  "score_of (foldl add_vector m vs) k =
     (case vector_score vs k of Some s \<Rightarrow> Some s | None \<Rightarrow> score_of m k)"
  by (induction vs rule: rev_induct) (auto simp: vector_score_def score_of_add_vector)

lemma score_of_foldl_master:
  "score_of (foldl add_master m ms) k = boosted 0.7 0.3 (score_of m k) (occurrences ms k)"
proof (induction ms arbitrary: m)
  case Nil
  show ?case by (cases "score_of m k") (simp_all add: boosted_def occurrences_def)
next
  case (Cons c ms)
  then show ?case
    by (simp add: score_of_add_master occurrences_def boosted_step)
qed

lemma score_of_foldl_theme:
  "score_of (foldl add_theme m ts) k = boosted 0.5 0.2 (score_of m k) (occurrences ts k)"
proof (induction ts arbitrary: m)
  case Nil
  show ?case by (cases "score_of m k") (simp_all add: boosted_def occurrences_def)
next
  case (Cons c ts)
  then show ?case
    by (simp add: score_of_add_theme occurrences_def boosted_step)
qed

lemma score_of_combined_map:
  "score_of (combined_map (ms, vs, ts)) k =
     boosted 0.5 0.2 (boosted 0.7 0.3 (vector_score vs k) (occurrences ms k)) (occurrences ts k)"
proof -
  have "score_of [] k = None" by (simp add: score_of_def map_get_def)
  then have "score_of (foldl add_vector [] vs) k = vector_score vs k"
    by (simp add: score_of_foldl_vector split: option.splits)
  then show ?thesis
    by (simp add: combined_map_def score_of_foldl_theme score_of_foldl_master)
qed

text \<open>Looking an id up in the ranked list finds the entry of the \<open>Map\<close>.\<close>

lemma find_unique:
  "distinct (map sc_id xs) \<Longrightarrow> x \<in> set xs \<Longrightarrow> find (\<lambda>c. sc_id c = sc_id x) xs = Some x"
  by (induction xs) (auto simp: image_iff)

lemma find_keyed: "keyed m \<Longrightarrow> find (\<lambda>c. sc_id c = k) (map snd m) = map_get m k"
proof (induction m)
  case Nil
  show ?case by (simp add: map_get_def)
next
  case (Cons e m)
  then have "keyed m" by (simp add: keyed_def)
  with Cons show ?case by (cases e) (auto simp: keyed_def map_get_def)
qed

lemma ids_keyed: "keyed m \<Longrightarrow> map sc_id (map snd m) = map fst m"
  by (induction m) (auto simp: keyed_def)

lemma distinct_map_sort_key: "distinct (map g xs) \<Longrightarrow> distinct (map g (sort_key f xs))"
  by (simp add: distinct_map)

lemma find_sorted_keyed:
  assumes "keyed m"
  shows "find (\<lambda>c. sc_id c = k) (sort_key f (map snd m)) = map_get m k"
proof -
  let ?xs = "map snd m" and ?ys = "sort_key f (map snd m)"
  have dx: "distinct (map sc_id ?xs)" by (metis assms ids_keyed keyed_def)
  have dy: "distinct (map sc_id ?ys)" using dx by (rule distinct_map_sort_key)
  show ?thesis
  proof (cases "find (\<lambda>c. sc_id c = k) ?xs")
    case None
    then have "\<forall>x \<in> set ?ys. sc_id x \<noteq> k" by (auto simp: find_None_iff)
    then have "find (\<lambda>c. sc_id c = k) ?ys = None" by (simp add: find_None_iff)
    with None show ?thesis using assms by (simp add: find_keyed)
  next
    case (Some x)
    then have "x \<in> set ?xs" and "sc_id x = k" by (auto simp: find_Some_iff)
    then have "x \<in> set ?ys" by simp
    from find_unique [OF dy this] \<open>sc_id x = k\<close> Some show ?thesis
      using assms by (simp add: find_keyed)
  qed
qed

lemma fused_score_eq:
  "fused_score (ms, vs, ts) k =
     boosted 0.5 0.2 (boosted 0.7 0.3 (vector_score vs k) (occurrences ms k)) (occurrences ts k)"
proof -
  have "fused_score (ms, vs, ts) k = score_of (combined_map (ms, vs, ts)) k"
    unfolding fused_score_def combineSearchResults_def map_values_def score_of_def
    by (simp only: find_sorted_keyed [OF keyed_combined_map])
  then show ?thesis by (simp only: score_of_combined_map)
qed

lemma occurrences_without: "occurrences (without k rs) k = 0"
  by (simp add: occurrences_def without_def)

lemma vector_score_without: "vector_score (without k vs) k = None"
  by (simp add: vector_score_def without_def find_None_iff)

text \<open>
  C7, as stated, fails: a chunk with similarity score 0.2 that is also routed by the
  master index is fused to \<open>0.2 + 0.3 = 0.5\<close>, below the 0.7 that the same chunk gets
  when only the master index returns it.
\<close>

theorem fused_boost_counterexample:
  "fused_score ([low_master], [low_vector], []) (js ''X'') = Some 0.5
   \<and> fused_score ([low_master], [], []) (js ''X'') = Some 0.7
   \<and> \<not> (0.7 < (0.5 :: rat))"
  by (simp add: fused_score_def) (simp add: low_vector_def low_master_def scenario_defs)

text \<open>
  C7, amended.  A chunk that appears in the similarity-search results with score \<open>s\<close>
  and in the master-index routing results is fused to \<open>s\<close> plus 0.3 for every
  master-index occurrence (plus the theme boosts): strictly more than the same chunk gets
  when it appears in the similarity-search results only; it is more than what the chunk
  gets when only the master index returns it exactly when \<open>s\<close> is above 0.4.
\<close>

theorem fused_boost:
  assumes "vector_score vs cid = Some s" and "0 < occurrences ms cid"
  shows "\<exists>both vector_only master_only.
     fused_score (ms, vs, ts) cid = Some both
     \<and> fused_score (without cid ms, vs, ts) cid = Some vector_only
     \<and> fused_score (ms, without cid vs, ts) cid = Some master_only
     \<and> both = vector_only + 0.3 * of_nat (occurrences ms cid)
     \<and> vector_only < both
     \<and> (master_only < both \<longleftrightarrow> 0.4 < s)"
proof -
  obtain n where n: "occurrences ms cid = Suc n"
    using assms(2) by (cases "occurrences ms cid") auto
  let ?t = "0.2 * rat_of_nat (occurrences ts cid)"
  have both: "fused_score (ms, vs, ts) cid = Some (s + 0.3 * of_nat (Suc n) + ?t)"
    using assms(1) n by (simp add: fused_score_eq boosted_def)
  have vector_only: "fused_score (without cid ms, vs, ts) cid = Some (s + ?t)"
    using assms(1) by (simp add: fused_score_eq occurrences_without boosted_def)
  have master_only: "fused_score (ms, without cid vs, ts) cid = Some (0.7 + 0.3 * of_nat n + ?t)"
    using n by (simp add: fused_score_eq vector_score_without boosted_def)
  have "s + 0.3 * of_nat (Suc n) + ?t = s + ?t + 0.3 * of_nat (occurrences ms cid)"
    using n by simp
  moreover have "s + ?t < s + 0.3 * of_nat (Suc n) + ?t"
    by simp
  moreover have "0.7 + 0.3 * of_nat n + ?t < s + 0.3 * of_nat (Suc n) + ?t \<longleftrightarrow> 0.4 < s"
    by (simp add: field_simps)
  ultimately show ?thesis
    using both vector_only master_only by blast
qed

theorem fused_boost_witness:
  "vector_score [scenario_B] (js ''B'') = Some 0.6
   \<and> 0 < occurrences [scenario_B_theme] (js ''B'')
   \<and> (\<exists>both vector_only master_only.
     fused_score ([scenario_B_theme], [scenario_B], []) (js ''B'') = Some both
     \<and> fused_score (without (js ''B'') [scenario_B_theme], [scenario_B], []) (js ''B'')
         = Some vector_only
     \<and> fused_score ([scenario_B_theme], without (js ''B'') [scenario_B], []) (js ''B'')
         = Some master_only
     \<and> both = vector_only + 0.3 * of_nat (occurrences [scenario_B_theme] (js ''B''))
     \<and> vector_only < both
     \<and> (master_only < both \<longleftrightarrow> 0.4 < (0.6::rat)))"
proof -
  have v: "vector_score [scenario_B] (js ''B'') = Some 0.6"
    by (simp add: vector_score_def scenario_B_def)
  have m: "0 < occurrences [scenario_B_theme] (js ''B'')"
    by (simp add: occurrences_def scenario_B_theme_def scenario_B_def)
  from fused_boost [OF v m, of "[]"] v m show ?thesis by blast
qed


section \<open>Properties of the master index\<close>

lemma map_set_map_set: "map_set (map_set m k v) k v' = map_set m k v'"
  by (induction m) auto

lemma add_term_eq: "add_term m chunk t = map_set m t (bump chunk (data_of m t))"
  by (cases "map_get m t")
    (simp_all add: add_term_def data_of_def bump_def map_get_map_set map_set_map_set)

lemma data_of_add_term:
  "data_of (add_term m chunk t) t' = (if t' = t then bump chunk (data_of m t) else data_of m t')"
  by (simp add: add_term_eq data_of_def map_get_map_set)

lemma keys_add_term: "fst ` set (add_term m chunk t) = insert t (fst ` set m)"
proof -
  have "set (map fst (add_term m chunk t)) = insert t (set (map fst m))"
    unfolding add_term_eq keys_map_set by auto
  then show ?thesis by simp
qed

lemma tidy_add_term: "tidy m \<Longrightarrow> tidy (add_term m chunk t)"
  unfolding tidy_def
  by (auto simp: data_of_add_term bump_def set_add_def) (simp add: add_term_eq keys_map_set)

lemma frequency_add_term:
  "td_frequency (data_of (add_term m chunk t) t')
     = td_frequency (data_of m t') + (if t' = t then 1 else 0)"
  by (simp add: data_of_add_term bump_def)

lemma books_add_term:
  "set (td_books (data_of (add_term m chunk t) t'))
     = set (td_books (data_of m t')) \<union> (if t' = t then {row_book_title chunk} else {})"
  by (auto simp: data_of_add_term bump_def set_add_def)

lemma add_terms_props:
  "td_frequency (data_of (add_terms m chunk (column chunk)) t')
     = td_frequency (data_of m t') + count_list (terms_of column chunk) t'
   \<and> set (td_books (data_of (add_terms m chunk (column chunk)) t'))
     = set (td_books (data_of m t'))
       \<union> (if t' \<in> set (terms_of column chunk) then {row_book_title chunk} else {})
   \<and> fst ` set (add_terms m chunk (column chunk)) = fst ` set m \<union> set (terms_of column chunk)
   \<and> (tidy m \<longrightarrow> tidy (add_terms m chunk (column chunk)))"
proof (cases "column chunk")
  case None
  then show ?thesis by (simp add: add_terms_def terms_of_def)
next
  case (Some ts)
  have "td_frequency (data_of (foldl (\<lambda>m t. add_term m chunk t) m ts) t')
          = td_frequency (data_of m t') + count_list ts t'
        \<and> set (td_books (data_of (foldl (\<lambda>m t. add_term m chunk t) m ts) t'))
          = set (td_books (data_of m t')) \<union> (if t' \<in> set ts then {row_book_title chunk} else {})
        \<and> fst ` set (foldl (\<lambda>m t. add_term m chunk t) m ts) = fst ` set m \<union> set ts
        \<and> (tidy m \<longrightarrow> tidy (foldl (\<lambda>m t. add_term m chunk t) m ts))"
  proof (induction ts arbitrary: m)
    case Nil
    show ?case by simp
  next
    case (Cons t ts)
    show ?case
      unfolding foldl_Cons
      using Cons.IH [of "add_term m chunk t"]
      by (auto simp: frequency_add_term books_add_term keys_add_term tidy_add_term)
  qed
  with Some show ?thesis by (simp add: add_terms_def terms_of_def)
qed

lemma collect_props:
  "td_frequency (data_of (collect column m chunks) t)
     = td_frequency (data_of m t) + term_frequency column chunks t
   \<and> set (td_books (data_of (collect column m chunks) t))
     = set (td_books (data_of m t)) \<union> term_books column chunks t
   \<and> fst ` set (collect column m chunks)
     = fst ` set m \<union> (\<Union>c \<in> set chunks. set (terms_of column c))
   \<and> (tidy m \<longrightarrow> tidy (collect column m chunks))"
proof (induction chunks arbitrary: m)
  case Nil
  show ?case by (simp add: collect_def term_frequency_def term_books_def)
next
  case (Cons c chunks)
  have step: "collect column m (c # chunks) = collect column (add_terms m c (column c)) chunks"
    by (simp add: collect_def)
  show ?case
    unfolding step
    using Cons.IH [of "add_terms m c (column c)"] add_terms_props [of m c column t]
    by (auto simp: term_frequency_def term_books_def)
qed

lemma build_maps_collect:
  "build_maps chunks = (collect row_themes [] chunks, collect row_keywords [] chunks)"
proof -
  have "foldl (\<lambda>(themeMap, keywordMap) chunk.
                 (add_terms themeMap chunk (row_themes chunk),
                  add_terms keywordMap chunk (row_keywords chunk))) (tm, km) chunks
          = (collect row_themes tm chunks, collect row_keywords km chunks)" for tm km
    by (induction chunks arbitrary: tm km) (simp_all add: collect_def)
  then show ?thesis by (simp add: build_maps_def)
qed

lemma tidy_empty: "tidy []"
  by (simp add: tidy_def data_of_def map_get_def empty_term_data_def)

lemma data_of_empty: "data_of [] t = empty_term_data"
  by (simp add: data_of_def map_get_def)

lemma data_of_member: "distinct (map fst m) \<Longrightarrow> (t, d) \<in> set m \<Longrightarrow> data_of m t = d"
  by (simp add: data_of_def map_get_def)







text \<open>No two entries of a build share their \<open>(key_term, index_type)\<close> pair.\<close>

lemma entry_key_make_entry: "entry_key (make_entry lower ty p) = (fst p, ty)"
  by (cases p) (simp add: entry_key_def make_entry_def)

lemma distinct_tagged: "distinct xs \<Longrightarrow> distinct (map (\<lambda>t. (t, ty)) xs)"
  by (simp add: distinct_map inj_on_def)

lemma distinct_two_tags:
  "distinct xs \<Longrightarrow> distinct ys \<Longrightarrow> a \<noteq> b \<Longrightarrow>
   distinct (map (\<lambda>t. (t, a)) xs @ map (\<lambda>t. (t, b)) ys)"
  by (auto simp: distinct_tagged)

lemma entry_keys_of_map:
  "map entry_key (map (make_entry lower ty) m) = map (\<lambda>t. (t, ty)) (map fst m)"
  by (simp add: entry_key_make_entry)

lemma distinct_entry_keys: "distinct (map entry_key (index_entries lower chunks))"
proof -
  let ?tm = "collect row_themes [] chunks" and ?km = "collect row_keywords [] chunks"
  have "tidy ?tm" and "tidy ?km"
    using collect_props [of _ "[]" chunks] tidy_empty by blast+
  then have dt: "distinct (map fst ?tm)" and dk: "distinct (map fst ?km)"
    by (simp_all add: tidy_def)
  have ne: "js ''theme'' \<noteq> js ''concept''" by (simp add: js_def)
  have "map entry_key (index_entries lower chunks)
          = map (\<lambda>t. (t, js ''theme'')) (map fst ?tm)
            @ map (\<lambda>t. (t, js ''concept'')) (map fst ?km)"
    unfolding index_entries_def build_maps_collect
    by (simp only: prod.case map_append entry_keys_of_map)
  then show ?thesis
    using distinct_two_tags [OF dt dk ne] by (simp only:)
qed

text \<open>Running the insertions of a build on a store with the unique index.\<close>

lemma upsert_new: "entry_key e \<notin> entry_key ` set table \<Longrightarrow> upsert e table = table @ [e]"
  by (simp add: upsert_def)

lemma run_inserts:
  "distinct (map entry_key es) \<Longrightarrow> entry_key ` set table \<inter> entry_key ` set es = {} \<Longrightarrow>
   run True (map AddIndexEntry es) table = (table @ es, None)"
proof (induction es arbitrary: table)
  case Nil
  show ?case by simp
next
  case (Cons e es)
  then have new: "entry_key e \<notin> entry_key ` set table" by auto
  have "entry_key ` set (table @ [e]) \<inter> entry_key ` set es = {}"
    using Cons.prems by auto
  with Cons have "run True (map AddIndexEntry es) (table @ [e]) = ((table @ [e]) @ es, None)"
    by simp
  with new show ?case by (simp add: addIndexEntry_def upsert_new)
qed

lemma visible_inserts:
  "distinct (map entry_key es) \<Longrightarrow> entry_key ` set table \<inter> entry_key ` set es = {} \<Longrightarrow>
   visible_states True (map AddIndexEntry es) table
     = map (\<lambda>n. table @ take n es) [0..<Suc (length es)]"
proof (induction es arbitrary: table)
  case Nil
  show ?case by simp
next
  case (Cons e es)
  then have new: "entry_key e \<notin> entry_key ` set table" by auto
  have "entry_key ` set (table @ [e]) \<inter> entry_key ` set es = {}"
    using Cons.prems by auto
  with Cons have ih: "visible_states True (map AddIndexEntry es) (table @ [e])
      = map (\<lambda>n. (table @ [e]) @ take n es) [0..<Suc (length es)]"
    by simp
  have "map (\<lambda>n. table @ take n (e # es)) [0..<Suc (length (e # es))]
          = table # map (\<lambda>n. table @ take (Suc n) (e # es)) [0..<Suc (length es)]"
    by (simp add: upt_rec [of 0] map_Suc_upt [symmetric] del: upt_Suc)
  with ih new show ?case by (simp add: addIndexEntry_def upsert_new del: upt_Suc)
qed

lemma run_rejected:
  "run False (map AddIndexEntry es) table
     = (table, if es = [] then None
               else Some (Error (js ''there is no unique or exclusion constraint matching the ON CONFLICT specification'')))"
  by (cases es) (simp_all add: addIndexEntry_def)

lemma buildIndexFromChunks_unique:
  "buildIndexFromChunks True lower chunks table = (index_entries lower chunks, None)"
  using run_inserts [OF distinct_entry_keys, of "[]" lower chunks]
  by (simp add: buildIndexFromChunks_def rebuild_statements_def)

lemma buildIndexFromChunks_rejected:
  "fst (buildIndexFromChunks False lower chunks table) = []"
  by (simp add: buildIndexFromChunks_def rebuild_statements_def run_rejected)

lemma rebuild_states_unique:
  "rebuild_states True lower chunks table
     = table # map (\<lambda>n. take n (index_entries lower chunks))
                 [0..<Suc (length (index_entries lower chunks))]"
  using visible_inserts [OF distinct_entry_keys, of "[]" lower chunks]
  by (simp add: rebuild_states_def rebuild_statements_def del: upt_Suc)

lemma rebuild_states_rejected: "rebuild_states False lower chunks table = [table, []]"
  by (cases "index_entries lower chunks")
    (simp_all add: rebuild_states_def rebuild_statements_def addIndexEntry_def)

lemma interrupted_rebuild_unique:
  "interrupted_rebuild (Suc k) True lower chunks table = take k (index_entries lower chunks)"
proof -
  have "distinct (map entry_key (take k (index_entries lower chunks)))"
    using distinct_entry_keys [of lower chunks] by (simp add: take_map [symmetric])
  from run_inserts [OF this, of "[]"] show ?thesis
    by (simp add: interrupted_rebuild_def rebuild_statements_def take_map)
qed

text \<open>What an entry of a build records about its term.\<close>

lemma entry_of_collect:
  assumes "e \<in> set (map (make_entry lower ty) (collect column [] chunks))"
  shows "frequency e = term_frequency column chunks (key_term e)
     \<and> length (book_references e) = card (term_books column chunks (key_term e))
     \<and> index_type e = ty
     \<and> importance_score e = calculateImportanceScore (frequency e) (length (book_references e))"
proof -
  let ?m = "collect column [] chunks"
  from assms obtain t d where m: "(t, d) \<in> set ?m" and e: "e = make_entry lower ty (t, d)"
    by auto
  have tidy: "tidy ?m" using collect_props [of column "[]" chunks] tidy_empty by blast
  then have d: "data_of ?m t = d" using m by (simp add: tidy_def data_of_member)
  have "distinct (td_books d)" using tidy d by (auto simp: tidy_def)
  then have "length (td_books d) = card (set (td_books d))" by (simp add: distinct_card)
  moreover have "td_frequency d = term_frequency column chunks t"
    and "set (td_books d) = term_books column chunks t"
    using collect_props [of column "[]" chunks t] d
    by (simp_all add: data_of_empty empty_term_data_def)
  ultimately show ?thesis using e by (simp add: make_entry_def)
qed

lemma entry_of_index:
  assumes "e \<in> set (index_entries lower chunks)"
  shows "frequency e = term_frequency (column_of (index_type e)) chunks (key_term e)
     \<and> length (book_references e) = card (term_books (column_of (index_type e)) chunks (key_term e))
     \<and> importance_score e = calculateImportanceScore (frequency e) (length (book_references e))"
proof -
  have ne: "js ''concept'' \<noteq> js ''theme''" by (simp add: js_def)
  from assms consider
      "e \<in> set (map (make_entry lower (js ''theme'')) (collect row_themes [] chunks))"
    | "e \<in> set (map (make_entry lower (js ''concept'')) (collect row_keywords [] chunks))"
    unfolding index_entries_def build_maps_collect by auto
  then show ?thesis
  proof cases
    case 1
    from entry_of_collect [OF this] show ?thesis by (simp add: column_of_def)
  next
    case 2
    from entry_of_collect [OF this] ne show ?thesis by (simp add: column_of_def)
  qed
qed

lemma importance_bounds:
  "0 \<le> calculateImportanceScore f d \<and> calculateImportanceScore f d \<le> 1"
proof -
  have "0 \<le> min (rat_of_nat f / 10) 1" and "min (rat_of_nat f / 10) 1 \<le> 1"
    and "0 \<le> min (rat_of_nat d / 5) 1" and "min (rat_of_nat d / 5) 1 \<le> 1"
    by simp_all
  then show ?thesis
    unfolding calculateImportanceScore_def Let_def by (simp add: field_simps)
qed

lemmas index_defs =
  index_entries_def build_maps_def add_terms_def add_term_def map_get_def set_add_def
  empty_term_data_def make_entry_def calculateImportanceScore_def extractHebrewEquivalent_def
  hebrewMap_def toLowerCase_ascii_def row1_def row2_def old_index_def js_def

lemma example_entries:
  "map (\<lambda>e. (key_term e, index_type e, frequency e, book_references e, importance_score e))
     (index_entries toLowerCase_ascii [row1, row2])
   = [(js ''joie'', js ''theme'', 2, [js ''Likutei Moharan'', js ''Sichot HaRan''], 0.26),
      (js ''foi'', js ''theme'', 1, [js ''Likutei Moharan''], 0.13),
      (js ''torah'', js ''concept'', 1, [js ''Likutei Moharan''], 0.13)]"
  by (simp add: index_defs)

text \<open>
  C5.  The importance score that the index builder computes from a frequency \<open>f\<close> and
  a book count \<open>d\<close> is \<open>0.7 * min(f / 10, 1.0) + 0.3 * min(d / 5, 1.0)\<close> and lies in
  \<open>[0, 1]\<close>; a term that occurs 10 times across 5 documents scores strictly higher than
  one that occurs 20 times in 1 document.  In every entry of a build, \<open>f\<close> is the number
  of occurrences of the term in its column over all chunks and \<open>d\<close> the number of
  distinct book titles of the chunks that carry the term.
\<close>

theorem importance_score_formula:
  "calculateImportanceScore f d = 0.7 * min (of_nat f / 10) 1.0 + 0.3 * min (of_nat d / 5) 1.0
   \<and> 0 \<le> calculateImportanceScore f d \<and> calculateImportanceScore f d \<le> 1
   \<and> calculateImportanceScore 20 1 < calculateImportanceScore 10 5
   \<and> (\<forall>e \<in> set (index_entries lower chunks).
         frequency e = term_frequency (column_of (index_type e)) chunks (key_term e)
       \<and> length (book_references e)
           = card (term_books (column_of (index_type e)) chunks (key_term e))
       \<and> importance_score e
           = 0.7 * min (of_nat (frequency e) / 10) 1.0
             + 0.3 * min (of_nat (length (book_references e)) / 5) 1.0)"
proof -
  have formula: "calculateImportanceScore f d
      = 0.7 * min (of_nat f / 10) 1.0 + 0.3 * min (of_nat d / 5) 1.0" for f d
    by (simp add: calculateImportanceScore_def)
  have scenario: "calculateImportanceScore 20 1 < calculateImportanceScore 10 5"
    by (simp add: calculateImportanceScore_def)
  show ?thesis
    using formula importance_bounds [of f d] scenario entry_of_index [of _ lower chunks]
    by (simp only:) blast
qed

theorem importance_score_formula_witness:
  "hd (index_entries toLowerCase_ascii [row1, row2]) \<in> set (index_entries toLowerCase_ascii [row1, row2])
   \<and> key_term (hd (index_entries toLowerCase_ascii [row1, row2])) = js ''joie''
   \<and> frequency (hd (index_entries toLowerCase_ascii [row1, row2]))
       = term_frequency row_themes [row1, row2] (js ''joie'')
   \<and> importance_score (hd (index_entries toLowerCase_ascii [row1, row2]))
       = 0.7 * min (2 / 10) 1.0 + 0.3 * min (2 / 5) 1.0"
proof -
  let ?es = "index_entries toLowerCase_ascii [row1, row2]"
  have ne: "?es \<noteq> []" using example_entries by auto
  then have mem: "hd ?es \<in> set ?es" by simp
  have vals: "key_term (hd ?es) = js ''joie''" "index_type (hd ?es) = js ''theme''"
    "frequency (hd ?es) = 2" "length (book_references (hd ?es)) = 2"
    using example_entries ne by (cases ?es; simp)+
  from importance_score_formula [of 2 2 toLowerCase_ascii "[row1, row2]"] mem
  have "frequency (hd ?es) = term_frequency (column_of (index_type (hd ?es))) [row1, row2] (key_term (hd ?es))"
    and "importance_score (hd ?es) = 0.7 * min (of_nat (frequency (hd ?es)) / 10) 1.0
             + 0.3 * min (of_nat (length (book_references (hd ?es))) / 5) 1.0"
    by blast+
  with mem vals show ?thesis by (simp add: column_of_def)
qed



text \<open>
  C4, as stated, fails: the rebuild deletes the previous index first.  On two chunk
  rows and a previous index of one entry, a reader sees the empty index after the first
  statement, and a rebuild interrupted after two statements leaves one of the three new
  entries.
\<close>

theorem rebuild_atomic_counterexample:
  "rebuild_states True toLowerCase_ascii [row1, row2] old_index ! 1 = []
   \<and> old_index \<noteq> []
   \<and> length (fst (buildIndexFromChunks True toLowerCase_ascii [row1, row2] old_index)) = 3
   \<and> map key_term (interrupted_rebuild 2 True toLowerCase_ascii [row1, row2] old_index)
       = [js ''joie'']"
proof -
  have "length (index_entries toLowerCase_ascii [row1, row2]) = 3"
    and "map key_term (take 1 (index_entries toLowerCase_ascii [row1, row2])) = [js ''joie'']"
    using arg_cong [OF example_entries, of length]
      arg_cong [OF example_entries, of "\<lambda>xs. map fst (take 1 xs)"]
    by (simp_all add: take_map comp_def)
  moreover have "interrupted_rebuild 2 True toLowerCase_ascii [row1, row2] old_index
      = take 1 (index_entries toLowerCase_ascii [row1, row2])"
    using interrupted_rebuild_unique [of 1 toLowerCase_ascii "[row1, row2]" old_index]
    by (simp add: numeral_2_eq_2)
  moreover have "old_index \<noteq> []" by (simp add: old_index_def)
  moreover have "rebuild_states True toLowerCase_ascii [row1, row2] old_index ! 1 = []"
    by (simp add: rebuild_states_unique upt_rec [of 0] del: upt_Suc)
  ultimately show ?thesis
    by (simp add: buildIndexFromChunks_unique)
qed

text \<open>
  C4, amended.  The rebuild is not all-or-nothing.  It deletes every row of the previous
  index and then adds the new entries one committed statement at a time.  Where the
  store has a unique index on \<open>(key_term, index_type)\<close>, readers see the previous index,
  then the empty index, then the first \<open>n\<close> new entries for \<open>n = 1, 2, ...\<close> up to the
  complete new index, and a rebuild interrupted after \<open>k + 1\<close> statements leaves the
  first \<open>k\<close> new entries.  On the schema of \<open>createTables\<close> readers see the previous
  index and then the empty index, which is what the rebuild leaves.
\<close>

theorem rebuild_visible_states:
  "rebuild_states True lower chunks table
     = table # map (\<lambda>n. take n (index_entries lower chunks))
                 [0..<Suc (length (index_entries lower chunks))]
   \<and> interrupted_rebuild (Suc k) True lower chunks table = take k (index_entries lower chunks)
   \<and> buildIndexFromChunks True lower chunks table = (index_entries lower chunks, None)
   \<and> rebuild_states False lower chunks table = [table, []]
   \<and> fst (buildIndexFromChunks False lower chunks table) = []"
  by (simp only: rebuild_states_unique interrupted_rebuild_unique buildIndexFromChunks_unique
      rebuild_states_rejected buildIndexFromChunks_rejected simp_thms)


section \<open>Properties of the chunker\<close>

text \<open>The overlap of the configurations used below, computed in doubles.\<close>

lemma overlap_values:
  "overlapWordCount \<lparr>chunkSize = 10000, overlapPercentage = 15\<rparr> = 375"
  "overlapWordCount \<lparr>chunkSize = 27, overlapPercentage = 15\<rparr> = 1"
  "overlapWordCount \<lparr>chunkSize = 3, overlapPercentage = 15\<rparr> = 0"
  "overlapWordCount \<lparr>chunkSize = 4, overlapPercentage = 15\<rparr> = 0"
  "overlapWordCount \<lparr>chunkSize = 4, overlapPercentage = 100\<rparr> = 1"
  by code_simp+

lemmas chunker_defs =
  chunkBook_def chunkSection_def intelligentSplit_def add_paragraph_def add_sentence_def
  push_chunk_def initial_split_state_def createChunk_def analyzeChunkContent_def
  analysis_attempt_def generateChunkSummary_def summary_attempt_def get_property_def
  or_empty_array_def extractHebrewFromContent_def hebrew_of_content_def hebrew_runs_def
  is_hebrew_or_space_def combineTexts_def add_overlap_def overlapWords_def overlap_values
  js_slice_def SemanticChunker_def or_default_def estimateTokenCount_def
  splitIntoParagraphs_def splitIntoSentences_def is_sentence_end_def nonblank_def trim_def
  is_space_def after_last_newline_def answering_def the_book_def js_def Let_def

text \<open>
  C10.  \<open>createChunk\<close> returns a chunk whatever the two model calls do.  When the
  analysis fails (the request is rejected, the response has no content, the content is
  not JSON, or it is the JSON \<open>null\<close>) the chunk has the empty list for its themes and
  for its keywords; when the summary fails its \<open>chunk_summary\<close> is \<open>Enseignement de\<close>
  followed by the section title.  The failure is logged as a warning.
\<close>

theorem createChunk_survives_failures:
  "(analysis_attempt env (cp_content params) (bm_title book) = Inl e \<longrightarrow>
      themes (snd (createChunk env book params)) = JArr []
      \<and> chunk_keywords (snd (createChunk env book params)) = JArr []
      \<and> Warn_analysis_failed (message e) \<in> set (fst (createChunk env book params)))
   \<and> (summary_attempt env (cp_content params) (cp_section_title params) = Inl e' \<longrightarrow>
      chunk_summary (snd (createChunk env book params))
        = js ''Enseignement de '' @ cp_section_title params
      \<and> Warn_summary_failed (message e') \<in> set (fst (createChunk env book params)))
   \<and> content (snd (createChunk env book params)) = cp_content params
   \<and> exact_reference (snd (createChunk env book params)) = cp_exact_reference params"
  by (auto simp: createChunk_def analyzeChunkContent_def generateChunkSummary_def
      or_empty_array_def split: sum.splits prod.splits)

theorem createChunk_survives_failures_witness:
  "analysis_attempt rejecting (cp_content some_params) (bm_title the_book)
     = Inl (Error (js ''OpenRouter API failed: timeout''))
   \<and> summary_attempt rejecting (cp_content some_params) (cp_section_title some_params)
     = Inl (Error (js ''OpenRouter API failed: timeout''))
   \<and> themes (snd (createChunk rejecting the_book some_params)) = JArr []
   \<and> chunk_keywords (snd (createChunk rejecting the_book some_params)) = JArr []
   \<and> chunk_summary (snd (createChunk rejecting the_book some_params))
       = js ''Enseignement de Torah 1''"
proof -
  have a: "analysis_attempt rejecting (cp_content some_params) (bm_title the_book)
      = Inl (Error (js ''OpenRouter API failed: timeout''))"
    by (simp add: analysis_attempt_def rejecting_def)
  have s: "summary_attempt rejecting (cp_content some_params) (cp_section_title some_params)
      = Inl (Error (js ''OpenRouter API failed: timeout''))"
    by (simp add: summary_attempt_def rejecting_def)
  have t: "js ''Enseignement de '' @ cp_section_title some_params = js ''Enseignement de Torah 1''"
    by (simp add: some_params_def js_def)
  from createChunk_survives_failures [of rejecting some_params the_book
      "Error (js ''OpenRouter API failed: timeout'')" "Error (js ''OpenRouter API failed: timeout'')"]
    a s t
  show ?thesis by simp
qed

lemma split_on_nonempty: "split_on sep cur s \<noteq> []"
  by (induction s arbitrary: cur) auto

lemma js_slice_last:
  "0 < k \<Longrightarrow> js_slice (- k) xs = drop (length xs - nat k) xs"
proof -
  assume "0 < k"
  then have "nat (max (int (length xs) - k) 0) = length xs - nat k" by linarith
  with \<open>0 < k\<close> show ?thesis by (simp add: js_slice_def)
qed

lemma js_slice_last_nonempty:
  assumes "0 < k" and "xs \<noteq> []"
  shows "js_slice (- k) xs \<noteq> []"
proof -
  have "0 < length xs" using assms(2) by simp
  then have "length xs - nat k < length xs" using assms(1) by linarith
  then show ?thesis by (simp add: js_slice_last [OF assms(1)])
qed

lemma js_slice_last_length: "0 < k \<Longrightarrow> int (length (js_slice (- k) xs)) \<le> k"
  by (auto simp: js_slice_def)

lemma overlapWords_last:
  "0 < overlapWordCount cfg \<Longrightarrow>
   overlapWords cfg t
     = drop (length (split_on is_space [] t) - nat (overlapWordCount cfg)) (split_on is_space [] t)"
  unfolding overlapWords_def by (rule js_slice_last)

lemma overlapWords_nonempty: "0 < overlapWordCount cfg \<Longrightarrow> overlapWords cfg t \<noteq> []"
  unfolding overlapWords_def by (rule js_slice_last_nonempty) (simp_all add: split_on_nonempty)

lemma overlapWords_length:
  "0 < overlapWordCount cfg \<Longrightarrow> int (length (overlapWords cfg t)) \<le> overlapWordCount cfg"
  unfolding overlapWords_def by (rule js_slice_last_length)

lemma add_overlap_eq:
  "0 < overlapWordCount cfg \<Longrightarrow>
   add_overlap cfg a b
     = b\<lparr>content := js_join (js '' '') (overlapWords cfg (content a)) @ js '' '' @ content b,
         token_count := token_count b + int (length (overlapWords cfg (content a)))\<rparr>"
  using overlapWords_nonempty [of cfg "content a"] by (simp add: add_overlap_def Let_def)

lemma add_overlap_token_count:
  "token_count (add_overlap cfg a b) = token_count b + int (length (overlapWords cfg (content a)))"
  by (simp add: add_overlap_def Let_def)

lemma addOverlap_length: "length (addOverlapBetweenChunks cfg cs) = length cs"
  by (induction cfg cs rule: addOverlapBetweenChunks.induct) simp_all

lemma addOverlap_first: "cs \<noteq> [] \<Longrightarrow> addOverlapBetweenChunks cfg cs ! 0 = cs ! 0"
  by (induction cfg cs rule: addOverlapBetweenChunks.induct) simp_all

lemma addOverlap_short: "length cs < 2 \<Longrightarrow> addOverlapBetweenChunks cfg cs = cs"
  by (induction cfg cs rule: addOverlapBetweenChunks.induct) simp_all

lemma addOverlap_next:
  "i + 1 < length cs \<Longrightarrow>
     addOverlapBetweenChunks cfg cs ! (i + 1)
       = add_overlap cfg (addOverlapBetweenChunks cfg cs ! i) (cs ! (i + 1))"
proof (induction cfg cs arbitrary: i rule: addOverlapBetweenChunks.induct)
  case (1 cfg a b rest)
  show ?case
  proof (cases i)
    case 0
    then show ?thesis by (simp add: addOverlap_first)
  next
    case (Suc j)
    with "1.prems" have "j + 1 < length (add_overlap cfg a b # rest)" by simp
    from "1.IH" [OF this] Suc show ?thesis by simp
  qed
qed simp_all

text \<open>
  C9, as stated, fails: the overlap is made of words joined by single spaces.  Two
  sections with a Hebrew and an English text give the chunk \<open>ab\n\ncd\<close> and, after the
  overlap, the chunk \<open>ab cd ef\n\ngh\<close>; no end of the first is a start of the second.
\<close>

theorem overlap_verbatim_counterexample:
  "map content (snd (chunkBook answering (SemanticChunker None None) the_book
        [section_one, section_two]))
     = [[97, 98, 10, 10, 99, 100], [97, 98, 32, 99, 100, 32, 101, 102, 10, 10, 103, 104]]
   \<and> \<not> ends_where_next_starts [97, 98, 10, 10, 99, 100]
          [97, 98, 32, 99, 100, 32, 101, 102, 10, 10, 103, 104]"
  by (simp add: section_one_def section_two_def chunker_defs ends_where_next_starts_def
      suffix_def)

text \<open>
  C9, amended.  The overlap word count is \<open>floor(overlapTokens / 4)\<close>, where
  \<open>overlapTokens\<close> is \<open>floor(chunkSize * (overlapPercentage / 100))\<close> in double
  arithmetic.  When it is positive, \<open>addOverlapBetweenChunks\<close> keeps the number of
  chunks and the first chunk, and every later chunk starts with the overlap words of the
  chunk before it, joined by single spaces and followed by a space, before its own
  content.  The overlap words of a chunk are the last words of its content as split at
  white space, as many as the overlap word count or all of them when there are fewer,
  taken after that chunk got its own overlap: the words reappear, the white space between
  them need not.  Fewer than two chunks are left as they are, and no chunk follows the
  last one.
\<close>

theorem overlap_carries_words:
  assumes "0 < overlapWordCount cfg"
  shows "length (addOverlapBetweenChunks cfg cs) = length cs
     \<and> (length cs < 2 \<longrightarrow> addOverlapBetweenChunks cfg cs = cs)
     \<and> (cs \<noteq> [] \<longrightarrow> addOverlapBetweenChunks cfg cs ! 0 = cs ! 0)
     \<and> (\<forall>i. i + 1 < length cs \<longrightarrow>
          content (addOverlapBetweenChunks cfg cs ! (i + 1))
            = js_join (js '' '') (overlapWords cfg (content (addOverlapBetweenChunks cfg cs ! i)))
              @ js '' '' @ content (cs ! (i + 1)))
     \<and> overlapWords cfg t
         = drop (length (split_on is_space [] t) - nat (overlapWordCount cfg))
             (split_on is_space [] t)
     \<and> overlapWords cfg t \<noteq> []"
  using addOverlap_next [of _ cs cfg] overlapWords_last [OF assms, of t]
    overlapWords_nonempty [OF assms, of t]
  by (simp add: addOverlap_length addOverlap_short addOverlap_first add_overlap_eq [OF assms])

theorem overlap_carries_words_witness:
  "0 < overlapWordCount (SemanticChunker None None)
   \<and> 0 + 1 < length example_chunks
   \<and> map content example_chunks = [[97, 98, 10, 10, 99, 100], [101, 102, 10, 10, 103, 104]]
   \<and> content (addOverlapBetweenChunks (SemanticChunker None None) example_chunks ! (0 + 1))
       = [97, 98, 32, 99, 100, 32, 101, 102, 10, 10, 103, 104]
   \<and> overlapWords (SemanticChunker None None) [97, 98, 10, 10, 99, 100]
       = [[97, 98], [99, 100]]"
proof -
  have k: "0 < overlapWordCount (SemanticChunker None None)"
    by (simp add: SemanticChunker_def or_default_def overlap_values)
  have cs: "map content example_chunks = [[97, 98, 10, 10, 99, 100], [101, 102, 10, 10, 103, 104]]"
    by (simp add: example_chunks_def section_one_def section_two_def chunker_defs)
  from cs obtain a b where ab: "example_chunks = [a, b]"
    and a: "content a = [97, 98, 10, 10, 99, 100]" and b: "content b = [101, 102, 10, 10, 103, 104]"
    by (auto simp: map_eq_Cons_conv)
  have sp: "split_on is_space [] [97, 98, 10, 10, 99, 100] = [[97, 98], [99, 100]]"
    by (simp add: is_space_def)
  have k375: "overlapWordCount (SemanticChunker None None) = 375"
    by (simp add: SemanticChunker_def or_default_def overlap_values)
  note carried = overlap_carries_words [OF k, of "[a, b]" "[97, 98, 10, 10, 99, 100]"]
  note nxt = carried [THEN conjunct2, THEN conjunct2, THEN conjunct2, THEN conjunct1,
      rule_format, of 0]
  note last_words = carried [THEN conjunct2, THEN conjunct2, THEN conjunct2, THEN conjunct2,
      THEN conjunct1]
  from last_words [unfolded sp k375]
  have w: "overlapWords (SemanticChunker None None) [97, 98, 10, 10, 99, 100]
       = [[97, 98], [99, 100]]"
    by simp
  from nxt a b w
  have "content (addOverlapBetweenChunks (SemanticChunker None None) [a, b] ! (0 + 1))
      = [97, 98, 32, 99, 100, 32, 101, 102, 10, 10, 103, 104]"
    by (simp add: js_def)
  then have fin: "content (addOverlapBetweenChunks (SemanticChunker None None) example_chunks ! (0 + 1))
      = [97, 98, 32, 99, 100, 32, 101, 102, 10, 10, 103, 104]"
    unfolding ab .
  have len: "0 + 1 < length example_chunks" unfolding ab by simp
  from k len cs fin w show ?thesis by blast
qed


subsection \<open>Token counts\<close>

lemma ex_dropWhile: "(\<exists>c \<in> set (dropWhile P s). \<not> P c) \<longleftrightarrow> (\<exists>c \<in> set s. \<not> P c)"
  by (induction s) auto

lemma nonblank_iff: "nonblank s \<longleftrightarrow> (\<exists>c \<in> set s. \<not> is_space c)"
proof -
  have "dropWhile is_space (rev (dropWhile is_space s)) \<noteq> []
          \<longleftrightarrow> (\<exists>c \<in> set (dropWhile is_space s). \<not> is_space c)"
    by (auto simp: dropWhile_eq_Nil_conv)
  then show ?thesis by (simp add: nonblank_def trim_def ex_dropWhile)
qed

lemma nonblank_append: "nonblank b \<Longrightarrow> nonblank (a @ b)"
  by (auto simp: nonblank_iff)

lemma nonblank_Nil: "\<not> nonblank []"
  by (simp add: nonblank_iff)

lemma estimate_pos: "nonblank s \<Longrightarrow> 1 \<le> estimateTokenCount s"
  by (cases s) (auto simp: nonblank_iff estimateTokenCount_def)

lemma push_chunk_fields:
  "currentChunk (push_chunk env book sec i st) = currentChunk st"
  "currentTokens (push_chunk env book sec i st) = currentTokens st"
  "chunkIndex (push_chunk env book sec i st) = chunkIndex st"
  by (simp_all add: push_chunk_def split: prod.splits)

lemma push_chunk_out:
  "\<exists>c. out_chunks (push_chunk env book sec i st) = out_chunks st @ [c]
       \<and> content c = trim (currentChunk st)
       \<and> token_count c = (if currentTokens st \<noteq> 0 then currentTokens st
                          else estimateTokenCount (trim (currentChunk st)))"
  by (simp add: push_chunk_def createChunk_def split: prod.splits)

lemma push_chunk_fits:
  assumes "in_budget cfg ls st" and "nonblank (currentChunk st)"
  shows "\<forall>c \<in> set (out_chunks (push_chunk env book sec i st)). fits cfg ls c"
proof -
  from assms have pos: "1 \<le> currentTokens st"
    and size: "currentTokens st \<le> chunkSize cfg
       \<or> currentChunk st \<in> set ls \<and> currentTokens st = estimateTokenCount (currentChunk st)"
    and old: "\<forall>c \<in> set (out_chunks st). fits cfg ls c"
    by (auto simp: in_budget_def nonblank_Nil)
  obtain c where out: "out_chunks (push_chunk env book sec i st) = out_chunks st @ [c]"
    and c: "content c = trim (currentChunk st)"
    and t: "token_count c = (if currentTokens st \<noteq> 0 then currentTokens st
                          else estimateTokenCount (trim (currentChunk st)))"
    using push_chunk_out [of env book sec i st] by blast
  from t pos have "token_count c = currentTokens st" by simp
  with size c have "fits cfg ls c" by (auto simp: fits_def)
  with old out show ?thesis by simp
qed

lemma in_budget_add_unit:
  assumes "nonblank (currentChunk st)"
    and "in_budget cfg ls st" and "nonblank u"
    and "estimateTokenCount u \<le> chunkSize cfg \<or> u \<in> set ls"
  shows "in_budget cfg ls
           ((push_chunk env book sec i st)
              \<lparr>chunkIndex := n, currentChunk := u, currentTokens := estimateTokenCount u\<rparr>)"
  using push_chunk_fits [OF assms(2) assms(1), where env = env and book = book
      and sec = sec and i = i] assms(3,4) estimate_pos [OF assms(3)]
  by (simp add: in_budget_def)

lemma in_budget_append_unit:
  assumes "in_budget cfg ls st" and "nonblank u"
    and "estimateTokenCount u \<le> chunkSize cfg \<or> u \<in> set ls"
    and "\<not> (currentTokens st + estimateTokenCount u > chunkSize cfg \<and> nonblank (currentChunk st))"
  shows "in_budget cfg ls
           (st\<lparr>currentChunk := currentChunk st @ (if currentChunk st \<noteq> [] then sep else []) @ u,
               currentTokens := currentTokens st + estimateTokenCount u\<rparr>)"
proof (cases "nonblank (currentChunk st)")
  case True
  have nb: "nonblank (currentChunk st @ (if currentChunk st \<noteq> [] then sep else []) @ u)"
    using assms(2) by (simp add: nonblank_append)
  have pos: "1 \<le> estimateTokenCount u" using assms(2) by (rule estimate_pos)
  from assms(1) True have "1 \<le> currentTokens st" by (auto simp: in_budget_def nonblank_Nil)
  moreover have "currentTokens st + estimateTokenCount u \<le> chunkSize cfg"
    using assms(4) True by simp
  ultimately show ?thesis using assms(1) nb pos by (simp add: in_budget_def)
next
  case False
  with assms(1) have e: "currentChunk st = []" "currentTokens st = 0"
    by (auto simp: in_budget_def)
  have pos: "1 \<le> estimateTokenCount u" using assms(2) by (rule estimate_pos)
  from assms(1) have "\<forall>c \<in> set (out_chunks st). fits cfg ls c" by (simp add: in_budget_def)
  with e pos assms(2,3) show ?thesis by (auto simp: in_budget_def)
qed

lemma in_budget_add_sentence:
  assumes "in_budget cfg ls st" and "nonblank s"
    and "estimateTokenCount s \<le> chunkSize cfg \<or> s \<in> set ls"
  shows "in_budget cfg ls (add_sentence env cfg book sec i st s)"
proof (cases "currentTokens st + estimateTokenCount s > chunkSize cfg \<and> nonblank (currentChunk st)")
  case True
  then have nb: "nonblank (currentChunk st)" by simp
  from True in_budget_add_unit [OF nb assms, where env = env and book = book and sec = sec
      and i = i and n = "chunkIndex st + 1"]
  show ?thesis by (simp add: add_sentence_def Let_def)
next
  case False
  from in_budget_append_unit [OF assms False, of "js '' ''"] False
  show ?thesis by (auto simp: add_sentence_def Let_def)
qed

lemma in_budget_sentences:
  "in_budget cfg ls st \<Longrightarrow>
   \<forall>s \<in> set ss. nonblank s \<and> (estimateTokenCount s \<le> chunkSize cfg \<or> s \<in> set ls) \<Longrightarrow>
   in_budget cfg ls (foldl (add_sentence env cfg book sec i) st ss)"
  by (induction ss arbitrary: st) (simp_all add: in_budget_add_sentence)

lemma in_budget_reset:
  assumes "in_budget cfg ls st"
  shows "in_budget cfg ls
     (if nonblank (currentChunk st)
      then (push_chunk env book sec i st)
             \<lparr>chunkIndex := n, currentChunk := [], currentTokens := 0\<rparr>
      else st)"
  using assms push_chunk_fits [OF assms, where env = env and book = book
      and sec = sec and i = i]
  by (auto simp: in_budget_def)

lemma sentences_nonblank: "s \<in> set (splitIntoSentences p) \<Longrightarrow> nonblank s"
  by (simp add: splitIntoSentences_def)

lemma paragraphs_nonblank: "p \<in> set (splitIntoParagraphs t) \<Longrightarrow> nonblank p"
  by (simp add: splitIntoParagraphs_def)

lemma in_budget_add_paragraph:
  assumes "in_budget cfg ls st" and "nonblank p"
    and "chunkSize cfg < estimateTokenCount p \<longrightarrow>
         (\<forall>s \<in> set (splitIntoSentences p). chunkSize cfg < estimateTokenCount s \<longrightarrow> s \<in> set ls)"
  shows "in_budget cfg ls (add_paragraph env cfg book sec i st p)"
proof (cases "chunkSize cfg < estimateTokenCount p")
  case True
  with assms(3) have "\<forall>s \<in> set (splitIntoSentences p).
      nonblank s \<and> (estimateTokenCount s \<le> chunkSize cfg \<or> s \<in> set ls)"
    by (auto simp: sentences_nonblank)
  from in_budget_sentences [OF in_budget_reset [OF assms(1)] this] True
  show ?thesis by (simp add: add_paragraph_def Let_def)
next
  case small: False
  then have fit: "estimateTokenCount p \<le> chunkSize cfg \<or> p \<in> set ls" by simp
  show ?thesis
  proof (cases "currentTokens st + estimateTokenCount p > chunkSize cfg \<and> nonblank (currentChunk st)")
    case True
    then have nb: "nonblank (currentChunk st)" by simp
    from True small in_budget_add_unit [OF nb assms(1,2) fit, where env = env and book = book
        and sec = sec and i = i and n = "chunkIndex st + 1"]
    show ?thesis by (simp add: add_paragraph_def Let_def)
  next
    case False
    from in_budget_append_unit [OF assms(1,2) fit False, of "[10, 10]"] False small
    show ?thesis by (auto simp: add_paragraph_def Let_def)
  qed
qed

lemma in_budget_paragraphs:
  "in_budget cfg ls st \<Longrightarrow>
   \<forall>p \<in> set ps. nonblank p \<and> (chunkSize cfg < estimateTokenCount p \<longrightarrow>
         (\<forall>s \<in> set (splitIntoSentences p). chunkSize cfg < estimateTokenCount s \<longrightarrow> s \<in> set ls)) \<Longrightarrow>
   in_budget cfg ls (foldl (add_paragraph env cfg book sec i) st ps)"
  by (induction ps arbitrary: st) (simp_all add: in_budget_add_paragraph)

lemma intelligentSplit_fits:
  "\<forall>c \<in> set (snd (intelligentSplit env cfg book t sec i)). fits cfg (long_sentences cfg t) c"
proof -
  let ?ls = "long_sentences cfg t"
  let ?st = "foldl (add_paragraph env cfg book sec i) initial_split_state (splitIntoParagraphs t)"
  have "in_budget cfg ?ls initial_split_state"
    by (simp add: in_budget_def initial_split_state_def)
  moreover have "\<forall>p \<in> set (splitIntoParagraphs t). nonblank p
      \<and> (chunkSize cfg < estimateTokenCount p \<longrightarrow>
         (\<forall>s \<in> set (splitIntoSentences p). chunkSize cfg < estimateTokenCount s \<longrightarrow> s \<in> set ?ls))"
    by (auto simp: paragraphs_nonblank long_sentences_def)
  ultimately have inv: "in_budget cfg ?ls ?st"
    by (rule in_budget_paragraphs)
  show ?thesis
  proof (cases "nonblank (currentChunk ?st)")
    case True
    with push_chunk_fits [OF inv True, where env = env and book = book
        and sec = sec and i = i] show ?thesis
      by (simp add: intelligentSplit_def Let_def)
  next
    case False
    with inv show ?thesis by (simp add: intelligentSplit_def Let_def in_budget_def)
  qed
qed

lemma fits_mono: "set ls \<subseteq> set ls' \<Longrightarrow> fits cfg ls c \<Longrightarrow> fits cfg ls' c"
  by (auto simp: fits_def)

lemma chunkSection_fits:
  assumes "sec \<in> set sections"
  shows "\<forall>c \<in> set (snd (chunkSection env cfg book sec i)). fits cfg (sentences_alone cfg sections) c"
proof (cases "nonblank (section_text sec) \<and> chunkSize cfg < estimateTokenCount (section_text sec)")
  case True
  with assms have "set (long_sentences cfg (section_text sec)) \<subseteq> set (sentences_alone cfg sections)"
    by (auto simp: sentences_alone_def)
  with intelligentSplit_fits [of env cfg book "section_text sec" sec i]
  have "\<forall>c \<in> set (snd (intelligentSplit env cfg book (section_text sec) sec i)).
      fits cfg (sentences_alone cfg sections) c"
    using fits_mono by blast
  with True show ?thesis
    by (simp add: chunkSection_def Let_def section_text_def)
next
  case False
  then show ?thesis
    by (auto simp: chunkSection_def Let_def section_text_def createChunk_def fits_def
        split: prod.splits)
qed

lemma chunk_sections_fits:
  "set secs \<subseteq> set sections \<Longrightarrow>
   \<forall>c \<in> set (snd (chunk_sections env cfg book n i secs)). fits cfg (sentences_alone cfg sections) c"
proof (induction secs arbitrary: i)
  case Nil
  show ?case by simp
next
  case (Cons sec secs)
  from Cons.prems have "\<forall>c \<in> set (snd (chunkSection env cfg book sec i)).
      fits cfg (sentences_alone cfg sections) c"
    by (intro chunkSection_fits) simp
  moreover from Cons have
    "\<forall>c \<in> set (snd (chunk_sections env cfg book n (i + 1) secs)).
       fits cfg (sentences_alone cfg sections) c"
    by simp
  ultimately show ?case by (auto split: prod.splits)
qed

lemma before_overlap_fits:
  assumes "i < length (chunks_before_overlap env cfg book sections)"
  shows "token_count (chunks_before_overlap env cfg book sections ! i) \<le> chunkSize cfg
     \<or> sentence_alone cfg sections (chunks_before_overlap env cfg book sections ! i)"
proof -
  have "chunks_before_overlap env cfg book sections ! i
      \<in> set (snd (chunk_sections env cfg book (length sections) 0 sections))"
    using assms unfolding chunks_before_overlap_def by (rule nth_mem)
  with chunk_sections_fits [of sections sections env cfg book "length sections" 0]
  have "fits cfg (sentences_alone cfg sections) (chunks_before_overlap env cfg book sections ! i)"
    by blast
  then show ?thesis by (simp add: fits_def sentence_alone_def)
qed

lemma chunkBook_chunks:
  "snd (chunkBook env cfg book sections)
     = addOverlapBetweenChunks cfg (chunks_before_overlap env cfg book sections)"
  by (simp add: chunkBook_def chunks_before_overlap_def Let_def split: prod.splits)

lemma addOverlap_token_count:
  assumes "0 < overlapWordCount cfg" and "i < length cs"
  shows "token_count (cs ! i) \<le> token_count (addOverlapBetweenChunks cfg cs ! i)
     \<and> token_count (addOverlapBetweenChunks cfg cs ! i) \<le> token_count (cs ! i) + overlapWordCount cfg"
proof (cases i)
  case 0
  with assms show ?thesis by (simp add: addOverlap_first [of cs cfg])
next
  case (Suc j)
  with assms(2) have "j + 1 < length cs" by simp
  from addOverlap_next [OF this, of cfg] Suc
  have "token_count (addOverlapBetweenChunks cfg cs ! i)
      = token_count (cs ! i)
        + int (length (overlapWords cfg (content (addOverlapBetweenChunks cfg cs ! j))))"
    by (simp add: add_overlap_token_count)
  with overlapWords_length [OF assms(1), of "content (addOverlapBetweenChunks cfg cs ! j)"]
  show ?thesis by simp
qed

lemma createChunk_silent: "model_answers env \<Longrightarrow> fst (createChunk env book params) = []"
proof -
  assume "model_answers env"
  then obtain a s where "analysis_attempt env (cp_content params) (bm_title book) = Inr a"
    and "summary_attempt env (cp_content params) (cp_section_title params) = Inr s"
    unfolding model_answers_def by metis
  then show ?thesis
    by (simp add: createChunk_def analyzeChunkContent_def generateChunkSummary_def)
qed

lemma push_chunk_silent:
  "model_answers env \<Longrightarrow> split_log (push_chunk env book sec i st) = split_log st"
  using createChunk_silent [of env book]
  by (auto simp: push_chunk_def split: prod.splits) (metis fst_conv)

lemma add_sentence_silent:
  "model_answers env \<Longrightarrow> split_log (add_sentence env cfg book sec i st s) = split_log st"
  by (simp add: add_sentence_def Let_def push_chunk_silent)

lemma sentences_silent:
  "model_answers env \<Longrightarrow> split_log (foldl (add_sentence env cfg book sec i) st ss) = split_log st"
  by (induction ss arbitrary: st) (simp_all add: add_sentence_silent)

lemma add_paragraph_silent:
  "model_answers env \<Longrightarrow> split_log (add_paragraph env cfg book sec i st p) = split_log st"
  by (simp add: add_paragraph_def Let_def push_chunk_silent sentences_silent)

lemma paragraphs_silent:
  "model_answers env \<Longrightarrow> split_log (foldl (add_paragraph env cfg book sec i) st ps) = split_log st"
  by (induction ps arbitrary: st) (simp_all add: add_paragraph_silent)

lemma intelligentSplit_silent:
  "model_answers env \<Longrightarrow> fst (intelligentSplit env cfg book t sec i) = []"
  by (simp add: intelligentSplit_def Let_def push_chunk_silent paragraphs_silent
      initial_split_state_def)

text \<open>
  C8, as stated, fails in four ways.  Nothing is logged when a sentence alone exceeds
  the budget: with a chunk size of 3 tokens, a section of one sentence of 20 characters
  gives one chunk of 5 tokens, above \<open>3 * 1.2\<close>, and the log of \<open>chunkBook\<close> holds the
  start, the section and the completion only.  The count that the chunker bounds is the
  recorded \<open>token_count\<close>, the sum of the estimates of the paragraphs, not the estimate
  of the content: with a chunk size of 4, five paragraphs of four characters give a first
  chunk that records 4 tokens and whose content of 22 characters is estimated at 6, above
  \<open>4 * 1.2\<close>.  In the same book the overlap word count is 0, \<open>slice(-0)\<close> carries all
  four words of the first chunk over, and the second chunk records 5 tokens, above
  \<open>4 * 1.2\<close>, without any sentence above the chunk size.  With an overlap of 100 percent
  the overlap is one word, more than a fifth of the chunk size, and the second of three
  chunks records 5 tokens.
\<close>

theorem chunk_budget_counterexample:
  "map token_count (snd (chunkBook answering tiny_chunks the_book [long_sentence])) = [5]
   \<and> 6 * chunkSize tiny_chunks < 5 * 5
   \<and> fst (chunkBook answering tiny_chunks the_book [long_sentence])
       = [Info_starting_chunking (js ''Likutei Moharan''),
          Debug_processing_section 1 1 (js ''Section 1''),
          Info_chunking_complete 1 (js ''Likutei Moharan'')]
   \<and> map level (fst (chunkBook answering tiny_chunks the_book [long_sentence]))
       = [Info, Debug, Info]
   \<and> map token_count (snd (chunkBook answering four_tokens the_book [five_paragraphs])) = [4, 5]
   \<and> map (\<lambda>c. estimateTokenCount (content c))
        (snd (chunkBook answering four_tokens the_book [five_paragraphs])) = [6, 6]
   \<and> 6 * chunkSize four_tokens < 5 * 5
   \<and> sentences_alone four_tokens [five_paragraphs] = []
   \<and> overlapWordCount four_tokens = 0
   \<and> map token_count (snd (chunkBook answering full_overlap the_book [nine_paragraphs]))
       = [4, 5, 2]
   \<and> sentences_alone full_overlap [nine_paragraphs] = []
   \<and> overlapWordCount full_overlap = 1"
  by (simp add: tiny_chunks_def long_sentence_def four_tokens_def five_paragraphs_def
      full_overlap_def nine_paragraphs_def sentences_alone_def long_sentences_def
      section_text_def chunker_defs)

text \<open>
  C8, amended.  The bound is on the \<open>token_count\<close> that a chunk records: the sum of the
  estimates of the paragraphs or sentences put into it, plus one per overlap word.
  Before the overlap is added, every chunk of a book records at most the chunk size,
  unless the chunk is one sentence that alone exceeds the chunk size, in a paragraph that
  is split by sentences.  With a positive overlap word count, the overlap adds to a
  chunk at most that count; when five times that count is at most the chunk size (the
  defaults are 375 words and 10000 tokens), every chunk records at most 1.2 times the
  chunk size, unless it was such a sentence before the overlap.  The overflow is not
  logged: \<open>intelligentSplit\<close> logs nothing when the model calls answer.
\<close>

theorem chunk_token_counts:
  "length (snd (chunkBook env cfg book sections))
     = length (chunks_before_overlap env cfg book sections)
   \<and> (\<forall>i < length (chunks_before_overlap env cfg book sections).
        token_count (chunks_before_overlap env cfg book sections ! i) \<le> chunkSize cfg
        \<or> sentence_alone cfg sections (chunks_before_overlap env cfg book sections ! i))
   \<and> (0 < overlapWordCount cfg \<longrightarrow>
        (\<forall>i < length (chunks_before_overlap env cfg book sections).
           token_count (chunks_before_overlap env cfg book sections ! i)
             \<le> token_count (snd (chunkBook env cfg book sections) ! i)
           \<and> token_count (snd (chunkBook env cfg book sections) ! i)
             \<le> token_count (chunks_before_overlap env cfg book sections ! i)
                + overlapWordCount cfg))
   \<and> (0 < overlapWordCount cfg \<and> 5 * overlapWordCount cfg \<le> chunkSize cfg \<longrightarrow>
        (\<forall>i < length (chunks_before_overlap env cfg book sections).
           5 * token_count (snd (chunkBook env cfg book sections) ! i) \<le> 6 * chunkSize cfg
           \<or> sentence_alone cfg sections (chunks_before_overlap env cfg book sections ! i)))
   \<and> (model_answers env \<longrightarrow> fst (intelligentSplit env cfg book t sec n) = [])"
proof -
  let ?base = "chunks_before_overlap env cfg book sections"
  let ?out = "snd (chunkBook env cfg book sections)"
  have len: "length ?out = length ?base"
    by (simp add: chunkBook_chunks addOverlap_length)
  have before: "token_count (?base ! i) \<le> chunkSize cfg \<or> sentence_alone cfg sections (?base ! i)"
    if "i < length ?base" for i
    using that by (rule before_overlap_fits)
  have added: "token_count (?base ! i) \<le> token_count (?out ! i)
      \<and> token_count (?out ! i) \<le> token_count (?base ! i) + overlapWordCount cfg"
    if "0 < overlapWordCount cfg" "i < length ?base" for i
    unfolding chunkBook_chunks using that by (rule addOverlap_token_count)
  have budget: "5 * token_count (?out ! i) \<le> 6 * chunkSize cfg
      \<or> sentence_alone cfg sections (?base ! i)"
    if "0 < overlapWordCount cfg" "5 * overlapWordCount cfg \<le> chunkSize cfg"
      "i < length ?base" for i
    using before [OF that(3)] added [OF that(1,3)] that(2) by linarith
  have silent: "fst (intelligentSplit env cfg book t sec n) = []" if "model_answers env"
    using that by (rule intelligentSplit_silent)
  from len before added budget silent show ?thesis by blast
qed

theorem chunk_token_counts_witness:
  "0 < overlapWordCount small_chunks
   \<and> 5 * overlapWordCount small_chunks \<le> chunkSize small_chunks
   \<and> 0 < overlapWordCount (SemanticChunker None None)
   \<and> 5 * overlapWordCount (SemanticChunker None None) \<le> chunkSize (SemanticChunker None None)
   \<and> model_answers answering
   \<and> map token_count (chunks_before_overlap answering small_chunks the_book [three_sentences])
       = [21, 10]
   \<and> map token_count (snd (chunkBook answering small_chunks the_book [three_sentences])) = [21, 11]
   \<and> 1 < length (chunks_before_overlap answering small_chunks the_book [three_sentences])
   \<and> 5 * token_count (snd (chunkBook answering small_chunks the_book [three_sentences]) ! 1)
       \<le> 6 * chunkSize small_chunks
   \<and> map token_count (chunks_before_overlap answering tiny_chunks the_book [long_sentence]) = [5]
   \<and> sentence_alone tiny_chunks [long_sentence]
       (chunks_before_overlap answering tiny_chunks the_book [long_sentence] ! 0)
   \<and> fst (intelligentSplit answering small_chunks the_book
             (section_text three_sentences) three_sentences 0) = []"
proof -
  have k: "0 < overlapWordCount small_chunks"
    "5 * overlapWordCount small_chunks \<le> chunkSize small_chunks"
    "0 < overlapWordCount (SemanticChunker None None)"
    "5 * overlapWordCount (SemanticChunker None None) \<le> chunkSize (SemanticChunker None None)"
    by (simp_all add: small_chunks_def SemanticChunker_def or_default_def overlap_values)
  have ans: "model_answers answering"
    by (simp add: model_answers_def analysis_attempt_def summary_attempt_def answering_def
        get_property_def)
  have base: "map token_count (chunks_before_overlap answering small_chunks the_book [three_sentences])
      = [21, 10]"
    by (simp add: chunks_before_overlap_def three_sentences_def small_chunks_def chunker_defs)
  have out: "map token_count (snd (chunkBook answering small_chunks the_book [three_sentences]))
      = [21, 11]"
    by (simp add: three_sentences_def small_chunks_def chunker_defs)
  have len: "1 < length (chunks_before_overlap answering small_chunks the_book [three_sentences])"
    using arg_cong [OF base, of length] by simp
  have long: "map token_count (chunks_before_overlap answering tiny_chunks the_book [long_sentence])
      = [5]"
    by (simp add: chunks_before_overlap_def long_sentence_def tiny_chunks_def chunker_defs)
  have len0: "0 < length (chunks_before_overlap answering tiny_chunks the_book [long_sentence])"
    using arg_cong [OF long, of length] by simp
  have over: "\<not> token_count (chunks_before_overlap answering tiny_chunks the_book [long_sentence] ! 0)
      \<le> chunkSize tiny_chunks"
    using arg_cong [OF long, of hd] len0
    by (simp add: hd_map hd_conv_nth tiny_chunks_def SemanticChunker_def or_default_def)
  from chunk_token_counts [of answering tiny_chunks the_book "[long_sentence]"] len0 over
  have alone: "sentence_alone tiny_chunks [long_sentence]
       (chunks_before_overlap answering tiny_chunks the_book [long_sentence] ! 0)"
    by blast
  have tc: "\<not> sentence_alone small_chunks [three_sentences]
       (chunks_before_overlap answering small_chunks the_book [three_sentences] ! 1)"
    by (simp add: sentence_alone_def sentences_alone_def long_sentences_def section_text_def
        three_sentences_def small_chunks_def chunker_defs)
  from chunk_token_counts [of answering small_chunks the_book "[three_sentences]"
      "section_text three_sentences" three_sentences 0] k(1,2) ans len tc
  have "5 * token_count (snd (chunkBook answering small_chunks the_book [three_sentences]) ! 1)
       \<le> 6 * chunkSize small_chunks"
    and "fst (intelligentSplit answering small_chunks the_book
             (section_text three_sentences) three_sentences 0) = []"
    by blast+
  with k ans base out len long alone show ?thesis by blast
qed


section \<open>Properties of the query route\<close>






end
